theory Spec2Isabelle
  imports Complex_Main "HOL-Library.Word" "HOL-Library.AList"
begin

unbundle bit_operations_syntax

section \<open>Bytes and fixed-width values\<close>

text \<open>
  The codec copies the object representation of a value with \<open>memcpy\<close>. A fixed-width
  integer is a word; its object representation is its bytes, least significant first (the
  reference platform is little-endian). \<open>size_t\<close> positions and counts are natural numbers
  (they never come near \<open>2 ^ 64\<close>). A \<open>float\<close> or \<open>double\<close> is modelled by its 32- or 64-bit
  pattern: the codec never computes with it, it only copies its bytes.
\<close>

type_synonym byte = "8 word"
type_synonym float32 = "32 word"
type_synonym float64 = "64 word"

fun le_bytes :: "nat \<Rightarrow> 'a::len word \<Rightarrow> byte list" where
  "le_bytes 0 w = []"
| "le_bytes (Suc n) w = ucast w # le_bytes n (drop_bit 8 w)"

fun le_word :: "byte list \<Rightarrow> 'a::len word" where
  "le_word [] = 0"
| "le_word (b # bs) = ucast b OR push_bit 8 (le_word bs)"

text \<open>A \<open>std::string\<close> is a sequence of \<open>char\<close>; each is one byte on the wire.\<close>

definition byte_of_char :: "char \<Rightarrow> byte" where
  "byte_of_char c = of_char c"

definition char_of_byte :: "byte \<Rightarrow> char" where
  "char_of_byte b = char_of (unat b)"

record vec3 =
  vec_x :: float32
  vec_y :: float32
  vec_z :: float32

record quat =
  quat_w :: float32
  quat_x :: float32
  quat_y :: float32
  quat_z :: float32

section \<open>BitStream (BitStream.h, BitStream.cpp)\<close>

record BitStream =
  m_buffer :: "byte list"
  m_writePos :: nat
  m_readPos :: nat

text \<open>\<open>BitStream()\<close>: \<open>reserve\<close> changes the capacity, not the size, of the vector.\<close>

definition BitStream_empty :: BitStream where
  "BitStream_empty = \<lparr>m_buffer = [], m_writePos = 0, m_readPos = 0\<rparr>"

text \<open>\<open>BitStream(const uint8_t* data, size_t size)\<close>, the argument being the \<open>size\<close> bytes at \<open>data\<close>.\<close>

definition BitStream_of :: "byte list \<Rightarrow> BitStream" where
  "BitStream_of d = \<lparr>m_buffer = d, m_writePos = length d, m_readPos = 0\<rparr>"

definition GetData :: "BitStream \<Rightarrow> byte list" where
  "GetData s = m_buffer s"

definition GetSize :: "BitStream \<Rightarrow> nat" where
  "GetSize s = m_writePos s"

definition GetReadPos :: "BitStream \<Rightarrow> nat" where
  "GetReadPos s = m_readPos s"

definition GetBytesRemaining :: "BitStream \<Rightarrow> nat" where
  "GetBytesRemaining s = m_writePos s - m_readPos s"

definition CanRead :: "BitStream \<Rightarrow> nat \<Rightarrow> bool" where
  "CanRead s n \<longleftrightarrow> m_readPos s + n \<le> m_writePos s"

definition EnsureCapacity :: "BitStream \<Rightarrow> nat \<Rightarrow> BitStream" where
  "EnsureCapacity s additionalBytes =
     (let requiredSize = m_writePos s + additionalBytes in
      if requiredSize > length (m_buffer s)
      then s\<lparr>m_buffer := m_buffer s @ replicate (requiredSize - length (m_buffer s)) 0\<rparr>
      else s)"

text \<open>\<open>Write(data, size)\<close>: the argument is the \<open>size\<close> bytes at \<open>data\<close>.\<close>

definition Write :: "BitStream \<Rightarrow> byte list \<Rightarrow> BitStream" where
  "Write s d =
     (let s1 = EnsureCapacity s (length d);
          buf = m_buffer s1;
          wp = m_writePos s1
      in s1\<lparr>m_buffer := take wp buf @ d @ drop (wp + length d) buf,
             m_writePos := wp + length d\<rparr>)"

definition WriteUInt8 :: "BitStream \<Rightarrow> 8 word \<Rightarrow> BitStream" where
  "WriteUInt8 s v = Write s (le_bytes 1 v)"

definition WriteInt8 :: "BitStream \<Rightarrow> 8 word \<Rightarrow> BitStream" where
  "WriteInt8 s v = Write s (le_bytes 1 v)"

definition WriteBool :: "BitStream \<Rightarrow> bool \<Rightarrow> BitStream" where
  "WriteBool s v = WriteUInt8 s (if v then 1 else 0)"

definition WriteInt16 :: "BitStream \<Rightarrow> 16 word \<Rightarrow> BitStream" where
  "WriteInt16 s v = Write s (le_bytes 2 v)"

definition WriteUInt16 :: "BitStream \<Rightarrow> 16 word \<Rightarrow> BitStream" where
  "WriteUInt16 s v = Write s (le_bytes 2 v)"

definition WriteInt32 :: "BitStream \<Rightarrow> 32 word \<Rightarrow> BitStream" where
  "WriteInt32 s v = Write s (le_bytes 4 v)"

definition WriteUInt32 :: "BitStream \<Rightarrow> 32 word \<Rightarrow> BitStream" where
  "WriteUInt32 s v = Write s (le_bytes 4 v)"

definition WriteInt64 :: "BitStream \<Rightarrow> 64 word \<Rightarrow> BitStream" where
  "WriteInt64 s v = Write s (le_bytes 8 v)"

definition WriteUInt64 :: "BitStream \<Rightarrow> 64 word \<Rightarrow> BitStream" where
  "WriteUInt64 s v = Write s (le_bytes 8 v)"

definition WriteFloat :: "BitStream \<Rightarrow> float32 \<Rightarrow> BitStream" where
  "WriteFloat s v = Write s (le_bytes 4 v)"

definition WriteDouble :: "BitStream \<Rightarrow> float64 \<Rightarrow> BitStream" where
  "WriteDouble s v = Write s (le_bytes 8 v)"

text \<open>The length is cast to \<open>uint32_t\<close>, and that many bytes of the string are written.\<close>

definition WriteString :: "BitStream \<Rightarrow> string \<Rightarrow> BitStream" where
  "WriteString s v =
     (let len = (word_of_nat (length v) :: 32 word);
          s1 = WriteUInt32 s len
      in if len > 0 then Write s1 (map byte_of_char (take (unat len) v)) else s1)"

definition WriteVector3 :: "BitStream \<Rightarrow> vec3 \<Rightarrow> BitStream" where
  "WriteVector3 s v = WriteFloat (WriteFloat (WriteFloat s (vec_x v)) (vec_y v)) (vec_z v)"

definition WriteQuaternion :: "BitStream \<Rightarrow> quat \<Rightarrow> BitStream" where
  "WriteQuaternion s v =
     WriteFloat (WriteFloat (WriteFloat (WriteFloat s (quat_w v)) (quat_x v)) (quat_y v)) (quat_z v)"

text \<open>
  \<open>Read(data, size)\<close> returns false and copies nothing when \<open>size\<close> bytes are not available;
  the model returns the bytes copied, if any, and the stream.
\<close>

definition Read :: "BitStream \<Rightarrow> nat \<Rightarrow> byte list option \<times> BitStream" where
  "Read s n =
     (if \<not> CanRead s n then (None, s)
      else (Some (take n (drop (m_readPos s) (m_buffer s))), s\<lparr>m_readPos := m_readPos s + n\<rparr>))"

text \<open>
  The typed readers share one shape: \<open>T value = 0; Read(&value, sizeof(value)); return value;\<close>
  so a short read yields zero and leaves the cursor where it was.
\<close>

definition ReadScalar :: "nat \<Rightarrow> BitStream \<Rightarrow> 'a::len word \<times> BitStream" where
  "ReadScalar n s = (case Read s n of (Some bs, s') \<Rightarrow> (le_word bs, s') | (None, s') \<Rightarrow> (0, s'))"

definition ReadUInt8 :: "BitStream \<Rightarrow> 8 word \<times> BitStream" where
  "ReadUInt8 = ReadScalar 1"

definition ReadInt8 :: "BitStream \<Rightarrow> 8 word \<times> BitStream" where
  "ReadInt8 = ReadScalar 1"

definition ReadBool :: "BitStream \<Rightarrow> bool \<times> BitStream" where
  "ReadBool s = (let (v, s') = ReadUInt8 s in (v \<noteq> 0, s'))"

definition ReadInt16 :: "BitStream \<Rightarrow> 16 word \<times> BitStream" where
  "ReadInt16 = ReadScalar 2"

definition ReadUInt16 :: "BitStream \<Rightarrow> 16 word \<times> BitStream" where
  "ReadUInt16 = ReadScalar 2"

definition ReadInt32 :: "BitStream \<Rightarrow> 32 word \<times> BitStream" where
  "ReadInt32 = ReadScalar 4"

definition ReadUInt32 :: "BitStream \<Rightarrow> 32 word \<times> BitStream" where
  "ReadUInt32 = ReadScalar 4"

definition ReadInt64 :: "BitStream \<Rightarrow> 64 word \<times> BitStream" where
  "ReadInt64 = ReadScalar 8"

definition ReadUInt64 :: "BitStream \<Rightarrow> 64 word \<times> BitStream" where
  "ReadUInt64 = ReadScalar 8"

definition ReadFloat :: "BitStream \<Rightarrow> float32 \<times> BitStream" where
  "ReadFloat = ReadScalar 4"

definition ReadDouble :: "BitStream \<Rightarrow> float64 \<times> BitStream" where
  "ReadDouble = ReadScalar 8"

definition ReadString :: "BitStream \<Rightarrow> string \<times> BitStream" where
  "ReadString s =
     (let (len, s1) = ReadUInt32 s in
      if len = 0 then ([], s1)
      else if \<not> CanRead s1 (unat len) then ([], s1)
      else (case Read s1 (unat len) of
              (Some bs, s2) \<Rightarrow> (map char_of_byte bs, s2)
            | (None, s2) \<Rightarrow> (replicate (unat len) (CHR 0x00), s2)))"

definition ReadVector3 :: "BitStream \<Rightarrow> vec3 \<times> BitStream" where
  "ReadVector3 s =
     (let (x, s1) = ReadFloat s; (y, s2) = ReadFloat s1; (z, s3) = ReadFloat s2
      in (\<lparr>vec_x = x, vec_y = y, vec_z = z\<rparr>, s3))"

definition ReadQuaternion :: "BitStream \<Rightarrow> quat \<times> BitStream" where
  "ReadQuaternion s =
     (let (w, s1) = ReadFloat s; (x, s2) = ReadFloat s1; (y, s3) = ReadFloat s2;
          (z, s4) = ReadFloat s3
      in (\<lparr>quat_w = w, quat_x = x, quat_y = y, quat_z = z\<rparr>, s4))"

definition Clear :: "BitStream \<Rightarrow> BitStream" where
  "Clear s = s\<lparr>m_writePos := 0, m_readPos := 0\<rparr>"

definition ResetReadPos :: "BitStream \<Rightarrow> BitStream" where
  "ResetReadPos s = s\<lparr>m_readPos := 0\<rparr>"

section \<open>Packets (Core.h, Packet.h, Packet.cpp)\<close>

definition PACKET_MAGIC :: "32 word" where
  "PACKET_MAGIC = 0x57564E45"

definition MAX_PACKET_SIZE :: nat where
  "MAX_PACKET_SIZE = 1024"

text \<open>
  \<open>enum class PacketType : uint16_t\<close>. The header stores the \<open>uint16_t\<close>, and any value can
  arrive from the wire, so a packet type is a 16-bit word and the enumerators are constants.
\<close>

type_synonym PacketType = "16 word"

definition ConnectionRequest :: PacketType where "ConnectionRequest = 0"
definition ConnectionAccept :: PacketType where "ConnectionAccept = 1"
definition ConnectionDenied :: PacketType where "ConnectionDenied = 2"
definition Disconnect :: PacketType where "Disconnect = 3"
definition Acknowledgement :: PacketType where "Acknowledgement = 10"
definition Heartbeat :: PacketType where "Heartbeat = 11"
definition ActorSpawn :: PacketType where "ActorSpawn = 20"
definition ActorDestroy :: PacketType where "ActorDestroy = 21"
definition ActorReplication :: PacketType where "ActorReplication = 22"
definition RPCServer :: PacketType where "RPCServer = 30"
definition RPCClient :: PacketType where "RPCClient = 31"
definition RPCMulticast :: PacketType where "RPCMulticast = 32"
definition TimeSync :: PacketType where "TimeSync = 100"

record PacketHeader =
  magic :: "32 word"
  sequence :: "32 word"
  packetType :: "16 word"
  payloadSize :: "16 word"

definition PacketHeader_Serialize :: "PacketHeader \<Rightarrow> BitStream \<Rightarrow> BitStream" where
  "PacketHeader_Serialize h stream =
     WriteUInt16 (WriteUInt16 (WriteUInt32 (WriteUInt32 stream (magic h)) (sequence h))
                    (packetType h)) (payloadSize h)"

text \<open>\<open>PacketHeader::Deserialize\<close> assigns all four fields, then compares the magic.\<close>

definition PacketHeader_Deserialize :: "BitStream \<Rightarrow> bool \<times> PacketHeader \<times> BitStream" where
  "PacketHeader_Deserialize stream =
     (let (m, s1) = ReadUInt32 stream;
          (sq, s2) = ReadUInt32 s1;
          (t, s3) = ReadUInt16 s2;
          (n, s4) = ReadUInt16 s3
      in (m = PACKET_MAGIC, \<lparr>magic = m, sequence = sq, packetType = t, payloadSize = n\<rparr>, s4))"

definition PacketHeader_GetSize :: nat where
  "PacketHeader_GetSize = 4 * 2 + 2 * 2"

record Packet =
  m_header :: PacketHeader
  m_payload :: BitStream

text \<open>\<open>Packet()\<close> and \<open>Packet(PacketType)\<close>.\<close>

definition Packet_new :: Packet where
  "Packet_new =
     \<lparr>m_header = \<lparr>magic = PACKET_MAGIC, sequence = 0, packetType = 0, payloadSize = 0\<rparr>,
      m_payload = BitStream_empty\<rparr>"

definition SetType :: "Packet \<Rightarrow> PacketType \<Rightarrow> Packet" where
  "SetType p t = p\<lparr>m_header := (m_header p)\<lparr>packetType := t\<rparr>\<rparr>"

definition Packet_of_type :: "PacketType \<Rightarrow> Packet" where
  "Packet_of_type t = SetType Packet_new t"

definition GetType :: "Packet \<Rightarrow> PacketType" where
  "GetType p = packetType (m_header p)"

definition SetSequence :: "Packet \<Rightarrow> 32 word \<Rightarrow> Packet" where
  "SetSequence p sq = p\<lparr>m_header := (m_header p)\<lparr>sequence := sq\<rparr>\<rparr>"

definition GetSequence :: "Packet \<Rightarrow> 32 word" where
  "GetSequence p = sequence (m_header p)"

text \<open>
  \<open>Packet::Serialize\<close> stores the payload size, cast to \<open>uint16_t\<close>, in the header of the
  packet itself (through a \<open>const_cast\<close>), so the model returns the packet as well.
\<close>

definition Packet_Serialize :: "Packet \<Rightarrow> BitStream \<Rightarrow> Packet \<times> BitStream" where
  "Packet_Serialize p outStream =
     (let h = (m_header p)\<lparr>payloadSize := word_of_nat (GetSize (m_payload p))\<rparr>;
          out1 = PacketHeader_Serialize h outStream;
          out2 = (if GetSize (m_payload p) > 0
                  then Write out1 (take (GetSize (m_payload p)) (GetData (m_payload p)))
                  else out1)
      in (p\<lparr>m_header := h\<rparr>, out2))"

text \<open>
  \<open>Packet::Deserialize\<close>: the result, the packet afterwards and the stream afterwards. The
  header is overwritten before either check is made.
\<close>

definition Packet_Deserialize :: "Packet \<Rightarrow> BitStream \<Rightarrow> bool \<times> Packet \<times> BitStream" where
  "Packet_Deserialize p inStream =
     (let (ok, h, s1) = PacketHeader_Deserialize inStream;
          p1 = p\<lparr>m_header := h\<rparr>
      in if \<not> ok then (False, p1, s1)
         else if payloadSize h > 0 then
           (if \<not> CanRead s1 (unat (payloadSize h)) then (False, p1, s1)
            else (case Read s1 (unat (payloadSize h)) of
                    (Some payloadData, s2) \<Rightarrow> (True, p1\<lparr>m_payload := BitStream_of payloadData\<rparr>, s2)
                  | (None, s2) \<Rightarrow>
                      (True, p1\<lparr>m_payload := BitStream_of (replicate (unat (payloadSize h)) 0)\<rparr>, s2)))
         else (True, p1, s1))"

text \<open>
  The bytes a stream holds. Every constructor and operation keeps the cursors inside the
  buffer (\<open>BitStream_wf\<close>); \<open>stored\<close> is \<open>written\<close> for such a stream, and says what
  \<open>EnsureCapacity\<close> would make of a shorter buffer otherwise.
\<close>

definition written :: "BitStream \<Rightarrow> byte list" where
  "written s = take (GetSize s) (GetData s)"

definition BitStream_wf :: "BitStream \<Rightarrow> bool" where
  "BitStream_wf s \<longleftrightarrow> m_readPos s \<le> m_writePos s \<and> m_writePos s \<le> length (m_buffer s)"

definition stored :: "BitStream \<Rightarrow> byte list" where
  "stored s = take (m_writePos s) (m_buffer s @ replicate (m_writePos s - length (m_buffer s)) 0)"

section \<open>Sockets (platform/Socket.h, platform/Socket.cpp)\<close>

text \<open>
  An address compares equal to another when host and port agree; validity is not compared.
  The socket is the process's window on the network: the model keeps the datagrams handed
  to \<open>sendto\<close>, and the receive loop below takes the datagrams waiting at the socket as
  its input.
\<close>

record WVSocketAddress =
  sin_addr :: "32 word"
  sin_port :: "16 word"
  m_isValid :: bool

definition addr_eq :: "WVSocketAddress \<Rightarrow> WVSocketAddress \<Rightarrow> bool" where
  "addr_eq a b \<longleftrightarrow> sin_addr a = sin_addr b \<and> sin_port a = sin_port b"

record WVSocket =
  sock_valid :: bool
  sock_sent :: "(WVSocketAddress \<times> byte list) list"

definition SendTo :: "WVSocket \<Rightarrow> byte list \<Rightarrow> WVSocketAddress \<Rightarrow> WVSocket" where
  "SendTo sock d dest =
     (if \<not> sock_valid sock \<or> \<not> m_isValid dest then sock
      else sock\<lparr>sock_sent := sock_sent sock @ [(dest, d)]\<rparr>)"

section \<open>Connections (NetConnection.h, NetConnection.cpp)\<close>

datatype ConnectionState = Connecting | Connected | Disconnecting | Disconnected

record Stats =
  packetsSent :: "64 word"
  packetsReceived :: "64 word"
  bytesSent :: "64 word"
  bytesReceived :: "64 word"
  packetsLost :: "32 word"

text \<open>
  The reliable buffer is a \<open>std::map\<close> from sequence number to packet, kept here as an
  association list with one entry for each key. The clocks are \<open>float\<close>s in the source; the
  model takes them as reals, and no property below depends on their rounding.
\<close>

record NetConnection =
  m_address :: WVSocketAddress
  m_state :: ConnectionState
  m_outgoingSequence :: "32 word"
  m_incomingSequence :: "32 word"
  m_reliableBuffer :: "(32 word \<times> Packet) list"
  m_outgoingQueue :: "Packet list"
  m_roundTripTime :: real
  m_lastSendTime :: real
  m_lastReceiveTime :: real
  m_currentTime :: real
  m_userData :: "nat option"
  m_stats :: Stats

definition NetConnection_new :: "WVSocketAddress \<Rightarrow> NetConnection" where
  "NetConnection_new address =
     \<lparr>m_address = address, m_state = Connecting, m_outgoingSequence = 0,
      m_incomingSequence = 0, m_reliableBuffer = [], m_outgoingQueue = [],
      m_roundTripTime = 0, m_lastSendTime = 0, m_lastReceiveTime = 0, m_currentTime = 0,
      m_userData = None,
      m_stats = \<lparr>packetsSent = 0, packetsReceived = 0, bytesSent = 0, bytesReceived = 0,
                 packetsLost = 0\<rparr>\<rparr>"

definition GetNextOutgoingSequence :: "NetConnection \<Rightarrow> 32 word \<times> NetConnection" where
  "GetNextOutgoingSequence c = (m_outgoingSequence c, c\<lparr>m_outgoingSequence := m_outgoingSequence c + 1\<rparr>)"

definition NetConnection_SendPacket :: "NetConnection \<Rightarrow> Packet \<Rightarrow> bool \<Rightarrow> NetConnection" where
  "NetConnection_SendPacket c packet reliable =
     (let (sq, c1) = GetNextOutgoingSequence c;
          outPacket = SetSequence packet sq;
          c2 = c1\<lparr>m_outgoingQueue := m_outgoingQueue c1 @ [outPacket]\<rparr>
      in if reliable
         then c2\<lparr>m_reliableBuffer := AList.update (GetSequence outPacket) outPacket (m_reliableBuffer c2)\<rparr>
         else c2)"

text \<open>\<open>Packet::Write<uint32_t>\<close> appends to the payload.\<close>

definition Packet_Write_u32 :: "Packet \<Rightarrow> 32 word \<Rightarrow> Packet" where
  "Packet_Write_u32 p v = p\<lparr>m_payload := WriteUInt32 (m_payload p) v\<rparr>"

definition SendAcknowledgement :: "NetConnection \<Rightarrow> 32 word \<Rightarrow> NetConnection" where
  "SendAcknowledgement c sq =
     (let ackPacket = Packet_Write_u32 (Packet_of_type Acknowledgement) sq
      in NetConnection_SendPacket c ackPacket False)"

text \<open>
  Reading the acknowledged sequence moves the read cursor of the packet's payload, so the
  packet is returned with the connection.
\<close>

definition ProcessAcknowledgement :: "NetConnection \<Rightarrow> Packet \<Rightarrow> NetConnection \<times> Packet" where
  "ProcessAcknowledgement c packet =
     (let (ackedSequence, pl) = ReadUInt32 (m_payload packet);
          packet1 = packet\<lparr>m_payload := pl\<rparr>
      in case map_of (m_reliableBuffer c) ackedSequence of
           Some _ \<Rightarrow>
             (let rtt = m_currentTime c - m_lastSendTime c
              in (c\<lparr>m_reliableBuffer := AList.delete ackedSequence (m_reliableBuffer c),
                    m_roundTripTime := m_roundTripTime c * 0.9 + rtt * 0.1\<rparr>, packet1))
         | None \<Rightarrow> (c, packet1))"

definition ReceivePacket :: "NetConnection \<Rightarrow> Packet \<Rightarrow> NetConnection \<times> Packet" where
  "ReceivePacket c packet =
     (let c1 = c\<lparr>m_lastReceiveTime := m_currentTime c,
                 m_stats := (m_stats c)\<lparr>packetsReceived := packetsReceived (m_stats c) + 1\<rparr>\<rparr>;
          sq = GetSequence packet;
          c2 = (if sq > m_incomingSequence c1 then c1\<lparr>m_incomingSequence := sq\<rparr> else c1);
          type = GetType packet;
          c3 = (if type \<noteq> Acknowledgement \<and> type \<noteq> Heartbeat then SendAcknowledgement c2 sq else c2)
      in if type = Acknowledgement then ProcessAcknowledgement c3 packet else (c3, packet))"

definition NetConnection_Tick :: "NetConnection \<Rightarrow> real \<Rightarrow> NetConnection" where
  "NetConnection_Tick c deltaTime = c\<lparr>m_currentTime := m_currentTime c + deltaTime\<rparr>"

definition GetTimeSinceLastReceive :: "NetConnection \<Rightarrow> real" where
  "GetTimeSinceLastReceive c = m_currentTime c - m_lastReceiveTime c"

definition IsTimedOut :: "NetConnection \<Rightarrow> real \<Rightarrow> bool" where
  "IsTimedOut c timeout \<longleftrightarrow> GetTimeSinceLastReceive c > timeout"

section \<open>The driver (NetDriver.h, NetDriver.cpp)\<close>

datatype NetworkMode = Standalone | Server | Client

text \<open>
  A connection lives on the heap and is known by its address, a number here. The driver
  owns the connections (\<open>m_connections\<close>) and keeps their addresses a second time
  (\<open>m_connectionList\<close>); \<open>m_nextAddress\<close> stands for the allocator, which hands out an
  address not in use. The three callbacks are code of the application: the model records
  whether one is installed and, in \<open>m_calls\<close>, each call made to it.
\<close>

datatype DriverCall =
    OnConnection nat
  | OnDisconnection nat
  | OnPacket nat Packet

record NetDriver =
  m_mode :: NetworkMode
  m_socket :: WVSocket
  m_maxConnections :: "32 word"
  m_connections :: "(nat \<times> NetConnection) list"
  m_connectionList :: "nat list"
  m_serverConnection :: "nat option"
  m_onConnection :: bool
  m_onDisconnection :: bool
  m_onPacket :: bool
  m_connectionTimeout :: real
  m_nextAddress :: nat
  m_calls :: "DriverCall list"

definition IsServer :: "NetDriver \<Rightarrow> bool" where
  "IsServer d \<longleftrightarrow> m_mode d = Server"

definition IsClient :: "NetDriver \<Rightarrow> bool" where
  "IsClient d \<longleftrightarrow> m_mode d = Client"

text \<open>The first owned connection whose address equals the given one.\<close>

fun find_address :: "(nat \<times> NetConnection) list \<Rightarrow> WVSocketAddress \<Rightarrow> nat option" where
  "find_address [] address = None"
| "find_address ((ptr, c) # cs) address =
     (if addr_eq (m_address c) address then Some ptr else find_address cs address)"

definition FindConnection :: "NetDriver \<Rightarrow> WVSocketAddress \<Rightarrow> nat option" where
  "FindConnection d address = find_address (m_connections d) address"

text \<open>Acting on the connection behind a pointer.\<close>

definition with_connection :: "nat \<Rightarrow> (NetConnection \<Rightarrow> NetConnection) \<Rightarrow> NetDriver \<Rightarrow> NetDriver" where
  "with_connection ptr f d =
     d\<lparr>m_connections := map (\<lambda>(q, c). if q = ptr then (q, f c) else (q, c)) (m_connections d)\<rparr>"

definition the_connection :: "NetDriver \<Rightarrow> nat \<Rightarrow> NetConnection option" where
  "the_connection d ptr = map_of (m_connections d) ptr"

definition CreateConnection :: "NetDriver \<Rightarrow> WVSocketAddress \<Rightarrow> nat \<times> NetDriver" where
  "CreateConnection d address =
     (let rawPtr = m_nextAddress d
      in (rawPtr,
          d\<lparr>m_connections := m_connections d @ [(rawPtr, NetConnection_new address)],
            m_connectionList := m_connectionList d @ [rawPtr],
            m_nextAddress := Suc rawPtr\<rparr>))"

definition RemoveConnection :: "NetDriver \<Rightarrow> nat \<Rightarrow> NetDriver" where
  "RemoveConnection d connection =
     d\<lparr>m_connectionList := filter (\<lambda>q. q \<noteq> connection) (m_connectionList d),
       m_connections := filter (\<lambda>(q, c). q \<noteq> connection) (m_connections d),
       m_serverConnection :=
         (if Some connection = m_serverConnection d then None else m_serverConnection d)\<rparr>"

definition NetDriver_SendPacket :: "NetDriver \<Rightarrow> nat option \<Rightarrow> Packet \<Rightarrow> bool \<Rightarrow> NetDriver" where
  "NetDriver_SendPacket d connection packet reliable =
     (case connection of
        None \<Rightarrow> d
      | Some ptr \<Rightarrow> with_connection ptr (\<lambda>c. NetConnection_SendPacket c packet reliable) d)"

definition call_back :: "bool \<Rightarrow> DriverCall \<Rightarrow> NetDriver \<Rightarrow> NetDriver" where
  "call_back installed ev d = (if installed then d\<lparr>m_calls := m_calls d @ [ev]\<rparr> else d)"

definition HandleConnectionRequest :: "NetDriver \<Rightarrow> WVSocketAddress \<Rightarrow> Packet \<Rightarrow> NetDriver" where
  "HandleConnectionRequest d from packet =
     (if FindConnection d from \<noteq> None then d
      else if length (m_connections d) \<ge> unat (m_maxConnections d) then
        (let deniedPacket = Packet_of_type ConnectionDenied;
             (_, stream) = Packet_Serialize deniedPacket BitStream_empty
         in d\<lparr>m_socket := SendTo (m_socket d) (take (GetSize stream) (GetData stream)) from\<rparr>)
      else
        (let (newConnection, d1) = CreateConnection d from;
             d2 = with_connection newConnection (\<lambda>c. c\<lparr>m_state := Connected\<rparr>) d1;
             acceptPacket = Packet_of_type ConnectionAccept;
             d3 = NetDriver_SendPacket d2 (Some newConnection) acceptPacket True
         in call_back (m_onConnection d3) (OnConnection newConnection) d3))"

definition HandleDisconnect :: "NetDriver \<Rightarrow> nat \<Rightarrow> Packet \<Rightarrow> NetDriver" where
  "HandleDisconnect d connection packet =
     RemoveConnection (call_back (m_onDisconnection d) (OnDisconnection connection) d) connection"

text \<open>
  The body of the receive loop for one datagram of at least one byte: \<open>from\<close> is the
  sender and \<open>buffer\<close> the bytes received.
\<close>

definition receive_datagram :: "NetDriver \<Rightarrow> WVSocketAddress \<Rightarrow> byte list \<Rightarrow> NetDriver" where
  "receive_datagram d from buffer =
     (let stream = BitStream_of buffer;
          (ok, packet, _) = Packet_Deserialize Packet_new stream
      in if \<not> ok then d
         else
           (let connection = FindConnection d from
            in if GetType packet = ConnectionRequest then
                 (if IsServer d then HandleConnectionRequest d from packet else d)
               else if GetType packet = ConnectionAccept then
                 (case m_serverConnection d of
                    Some srv \<Rightarrow>
                      if IsClient d then
                        (let d1 = with_connection srv (\<lambda>c. c\<lparr>m_state := Connected\<rparr>) d
                         in call_back (m_onConnection d1) (OnConnection srv) d1)
                      else d
                  | None \<Rightarrow> d)
               else if GetType packet = Disconnect then
                 (case connection of
                    Some ptr \<Rightarrow> HandleDisconnect d ptr packet
                  | None \<Rightarrow> d)
               else
                 (case connection of
                    Some ptr \<Rightarrow>
                      (case the_connection d ptr of
                         Some c \<Rightarrow>
                           (let (c1, packet1) = ReceivePacket c packet;
                                d1 = with_connection ptr (\<lambda>_. c1) d
                            in call_back (m_onPacket d1) (OnPacket ptr packet1) d1)
                       | None \<Rightarrow> d)
                  | None \<Rightarrow> d)))"

text \<open>
  \<open>ReceivePackets\<close>: at most 100 datagrams in one call. The receive buffer holds
  \<open>MAX_PACKET_SIZE * 2\<close> bytes and \<open>recvfrom\<close> cuts a longer datagram to that; the loop ends
  when the socket is not valid, when nothing is waiting or when a datagram of no bytes
  arrives. The input is the queue
  of datagrams waiting at the socket; what is left of it is returned.
\<close>

definition bufferSize :: nat where
  "bufferSize = MAX_PACKET_SIZE * 2"

fun receive_loop ::
  "nat \<Rightarrow> NetDriver \<Rightarrow> (WVSocketAddress \<times> byte list) list \<Rightarrow> NetDriver \<times> (WVSocketAddress \<times> byte list) list"
where
  "receive_loop 0 d waiting = (d, waiting)"
| "receive_loop (Suc n) d [] = (d, [])"
| "receive_loop (Suc n) d ((from, datagram) # waiting) =
     (if \<not> sock_valid (m_socket d) then (d, (from, datagram) # waiting)
      else
        (let buffer = take bufferSize datagram
         in if length buffer = 0 then (d, waiting)
            else receive_loop n (receive_datagram d from buffer) waiting))"


section \<open>Values the statements about the driver speak of\<close>

text \<open>The twelve header bytes of a packet with the right magic.\<close>

definition header_bytes :: "32 word \<Rightarrow> 16 word \<Rightarrow> 16 word \<Rightarrow> byte list" where
  "header_bytes sq ty n = le_bytes 4 PACKET_MAGIC @ le_bytes 4 sq @ le_bytes 2 ty @ le_bytes 2 n"

text \<open>The datagram of a \<open>ConnectionDenied\<close> packet, which has sequence 0 and no payload.\<close>

definition denied_datagram :: "byte list" where
  "denied_datagram = header_bytes 0 ConnectionDenied 0"

text \<open>
  A connection right after the server accepted it: state \<open>Connected\<close>, the
  \<open>ConnectionAccept\<close> with sequence 0 in the outgoing queue and in the reliable buffer.
\<close>

definition accepted_connection :: "WVSocketAddress \<Rightarrow> NetConnection" where
  "accepted_connection from =
     (NetConnection_new from)
       \<lparr>m_state := Connected, m_outgoingSequence := 1,
        m_reliableBuffer := [(0, Packet_of_type ConnectionAccept)],
        m_outgoingQueue := [Packet_of_type ConnectionAccept]\<rparr>"

text \<open>The acknowledgement of sequence \<open>acked\<close>, itself sent with sequence \<open>own_sequence\<close>.\<close>

definition ack_packet :: "32 word \<Rightarrow> 32 word \<Rightarrow> Packet" where
  "ack_packet own_sequence acked =
     SetSequence (Packet_Write_u32 (Packet_of_type Acknowledgement) acked) own_sequence"

text \<open>Every acknowledgement waiting in the outgoing queue of some connection of the driver.\<close>

definition acks_queued :: "NetDriver \<Rightarrow> Packet list" where
  "acks_queued d =
     concat (map (\<lambda>(q, c). filter (\<lambda>p. GetType p = Acknowledgement) (m_outgoingQueue c)) (m_connections d))"

section \<open>Replicated properties and actors (Actor.h, Actor.cpp)\<close>

text \<open>
  \<open>enum class PropertyType\<close>. A byte from the wire is cast to it, so a value with no
  enumerator can occur; \<open>NoEnumerator\<close> keeps such a value.
\<close>

datatype PropertyType =
    Bool | Int8 | UInt8 | Int16 | UInt16 | Int32 | UInt32 | Int64 | UInt64
  | Float | Double | Vector3 | Quaternion | String | Custom
  | NoEnumerator "8 word"

definition byte_of_PropertyType :: "PropertyType \<Rightarrow> 8 word" where
  "byte_of_PropertyType t =
     (case t of
        Bool \<Rightarrow> 0 | Int8 \<Rightarrow> 1 | UInt8 \<Rightarrow> 2 | Int16 \<Rightarrow> 3 | UInt16 \<Rightarrow> 4 | Int32 \<Rightarrow> 5
      | UInt32 \<Rightarrow> 6 | Int64 \<Rightarrow> 7 | UInt64 \<Rightarrow> 8 | Float \<Rightarrow> 9 | Double \<Rightarrow> 10
      | Vector3 \<Rightarrow> 11 | Quaternion \<Rightarrow> 12 | String \<Rightarrow> 13 | Custom \<Rightarrow> 14
      | NoEnumerator b \<Rightarrow> b)"

definition PropertyType_of_byte :: "8 word \<Rightarrow> PropertyType" where
  "PropertyType_of_byte b =
     (if b = 0 then Bool else if b = 1 then Int8 else if b = 2 then UInt8
      else if b = 3 then Int16 else if b = 4 then UInt16 else if b = 5 then Int32
      else if b = 6 then UInt32 else if b = 7 then Int64 else if b = 8 then UInt64
      else if b = 9 then Float else if b = 10 then Double else if b = 11 then Vector3
      else if b = 12 then Quaternion else if b = 13 then String else if b = 14 then Custom
      else NoEnumerator b)"

text \<open>
  A property points (\<open>dataPtr\<close>) at a data member of its actor. The data members are kept
  in a store from addresses to objects: an object is the bytes of a trivially copyable
  member, or a \<open>std::string\<close>. Reading or writing through the pointer is undefined
  behaviour in C++ when it runs past the object or treats one kind of object as the other;
  the model then has no result (\<open>None\<close>). The bytes of a \<open>std::string\<close> object itself are not
  modelled. In memory a \<open>vec3\<close> is \<open>x, y, z\<close> and a \<open>quat\<close> is taken to be \<open>w, x, y, z\<close>.
\<close>

datatype obj = Bytes "byte list" | StdString string

type_synonym memory = "(nat \<times> obj) list"

definition load_bytes :: "memory \<Rightarrow> nat \<Rightarrow> nat \<Rightarrow> byte list option" where
  "load_bytes mem ptr n =
     (case map_of mem ptr of
        Some (Bytes old) \<Rightarrow> if n \<le> length old then Some (take n old) else None
      | _ \<Rightarrow> None)"

definition store_bytes :: "memory \<Rightarrow> nat \<Rightarrow> byte list \<Rightarrow> memory option" where
  "store_bytes mem ptr bs =
     (case map_of mem ptr of
        Some (Bytes old) \<Rightarrow>
          if length bs \<le> length old
          then Some (AList.update ptr (Bytes (bs @ drop (length bs) old)) mem)
          else None
      | _ \<Rightarrow> None)"

definition load_string :: "memory \<Rightarrow> nat \<Rightarrow> string option" where
  "load_string mem ptr = (case map_of mem ptr of Some (StdString s) \<Rightarrow> Some s | _ \<Rightarrow> None)"

definition store_string :: "memory \<Rightarrow> nat \<Rightarrow> string \<Rightarrow> memory option" where
  "store_string mem ptr s =
     (case map_of mem ptr of
        Some (StdString _) \<Rightarrow> Some (AList.update ptr (StdString s) mem)
      | _ \<Rightarrow> None)"

record ReplicatedProperty =
  prop_name :: string
  prop_type :: PropertyType
  dataPtr :: "nat option"
  prop_size :: nat
  lastValue :: "byte list"
  dirty :: bool

text \<open>
  The constructor used at registration: \<open>lastValue.resize(sz)\<close> fills the cache with \<open>sz\<close>
  zero bytes, and \<open>dirty\<close> starts as true.
\<close>

definition ReplicatedProperty_new ::
  "string \<Rightarrow> PropertyType \<Rightarrow> nat option \<Rightarrow> nat \<Rightarrow> ReplicatedProperty" where
  "ReplicatedProperty_new n t ptr sz =
     \<lparr>prop_name = n, prop_type = t, dataPtr = ptr, prop_size = sz,
      lastValue = replicate sz 0, dirty = True\<rparr>"

text \<open>\<open>memcmp(dataPtr, lastValue.data(), size) != 0\<close>, unless there is no cache or no pointer.\<close>

definition HasChanged :: "memory \<Rightarrow> ReplicatedProperty \<Rightarrow> bool option" where
  "HasChanged mem p =
     (case dataPtr p of
        None \<Rightarrow> Some True
      | Some ptr \<Rightarrow>
          if lastValue p = [] then Some True
          else if prop_size p > length (lastValue p) then None
          else (case load_bytes mem ptr (prop_size p) of
                  None \<Rightarrow> None
                | Some bs \<Rightarrow> Some (bs \<noteq> take (prop_size p) (lastValue p))))"

definition UpdateLastValue :: "memory \<Rightarrow> ReplicatedProperty \<Rightarrow> ReplicatedProperty option" where
  "UpdateLastValue mem p =
     (case dataPtr p of
        None \<Rightarrow> Some p
      | Some ptr \<Rightarrow>
          if lastValue p = [] then Some p
          else if prop_size p > length (lastValue p) then None
          else (case load_bytes mem ptr (prop_size p) of
                  None \<Rightarrow> None
                | Some bs \<Rightarrow> Some (p\<lparr>lastValue := bs @ drop (prop_size p) (lastValue p), dirty := False\<rparr>)))"

text \<open>
  \<open>ReplicatedProperty::Serialize\<close>: name, kind byte, then the value read through the pointer
  cast to the type of the kind. A \<open>bool\<close> is read as one byte and written as 1 or 0.
\<close>

definition ReplicatedProperty_Serialize ::
  "memory \<Rightarrow> ReplicatedProperty \<Rightarrow> BitStream \<Rightarrow> BitStream option" where
  "ReplicatedProperty_Serialize mem p stream =
     (case dataPtr p of
        None \<Rightarrow> Some stream
      | Some ptr \<Rightarrow>
          (let s1 = WriteString stream (prop_name p);
               s2 = WriteUInt8 s1 (byte_of_PropertyType (prop_type p))
           in case prop_type p of
                Bool \<Rightarrow> map_option (\<lambda>bs. WriteBool s2 (le_word bs \<noteq> (0 :: 8 word))) (load_bytes mem ptr 1)
              | Int8 \<Rightarrow> map_option (\<lambda>bs. WriteInt8 s2 (le_word bs)) (load_bytes mem ptr 1)
              | UInt8 \<Rightarrow> map_option (\<lambda>bs. WriteUInt8 s2 (le_word bs)) (load_bytes mem ptr 1)
              | Int16 \<Rightarrow> map_option (\<lambda>bs. WriteInt16 s2 (le_word bs)) (load_bytes mem ptr 2)
              | UInt16 \<Rightarrow> map_option (\<lambda>bs. WriteUInt16 s2 (le_word bs)) (load_bytes mem ptr 2)
              | Int32 \<Rightarrow> map_option (\<lambda>bs. WriteInt32 s2 (le_word bs)) (load_bytes mem ptr 4)
              | UInt32 \<Rightarrow> map_option (\<lambda>bs. WriteUInt32 s2 (le_word bs)) (load_bytes mem ptr 4)
              | Int64 \<Rightarrow> map_option (\<lambda>bs. WriteInt64 s2 (le_word bs)) (load_bytes mem ptr 8)
              | UInt64 \<Rightarrow> map_option (\<lambda>bs. WriteUInt64 s2 (le_word bs)) (load_bytes mem ptr 8)
              | Float \<Rightarrow> map_option (\<lambda>bs. WriteFloat s2 (le_word bs)) (load_bytes mem ptr 4)
              | Double \<Rightarrow> map_option (\<lambda>bs. WriteDouble s2 (le_word bs)) (load_bytes mem ptr 8)
              | Vector3 \<Rightarrow>
                  map_option
                    (\<lambda>bs. WriteVector3 s2
                       \<lparr>vec_x = le_word (take 4 bs), vec_y = le_word (take 4 (drop 4 bs)),
                        vec_z = le_word (take 4 (drop 8 bs))\<rparr>)
                    (load_bytes mem ptr 12)
              | Quaternion \<Rightarrow>
                  map_option
                    (\<lambda>bs. WriteQuaternion s2
                       \<lparr>quat_w = le_word (take 4 bs), quat_x = le_word (take 4 (drop 4 bs)),
                        quat_y = le_word (take 4 (drop 8 bs)), quat_z = le_word (take 4 (drop 12 bs))\<rparr>)
                    (load_bytes mem ptr 16)
              | String \<Rightarrow> map_option (\<lambda>v. WriteString s2 v) (load_string mem ptr)
              | _ \<Rightarrow> Some s2))"

text \<open>
  \<open>ReplicatedProperty::Deserialize\<close>: it reads a name and a kind byte from the stream into
  the property itself, then a value of that kind, which it stores through the pointer, and
  last it refreshes the cache.
\<close>

definition ReplicatedProperty_Deserialize ::
  "memory \<Rightarrow> ReplicatedProperty \<Rightarrow> BitStream \<Rightarrow> (memory \<times> ReplicatedProperty \<times> BitStream) option"
where
  "ReplicatedProperty_Deserialize mem p stream =
     (case dataPtr p of
        None \<Rightarrow> Some (mem, p, stream)
      | Some ptr \<Rightarrow>
          (let (n, s1) = ReadString stream;
               (tb, s2) = ReadUInt8 s1;
               p1 = p\<lparr>prop_name := n, prop_type := PropertyType_of_byte tb\<rparr>;
               stored_value =
                 (case prop_type p1 of
                    Bool \<Rightarrow> (let (v, s3) = ReadBool s2
                              in map_option (\<lambda>m. (m, s3)) (store_bytes mem ptr [if v then 1 else 0]))
                  | Int8 \<Rightarrow> (let (v, s3) = ReadInt8 s2
                              in map_option (\<lambda>m. (m, s3)) (store_bytes mem ptr (le_bytes 1 v)))
                  | UInt8 \<Rightarrow> (let (v, s3) = ReadUInt8 s2
                               in map_option (\<lambda>m. (m, s3)) (store_bytes mem ptr (le_bytes 1 v)))
                  | Int16 \<Rightarrow> (let (v, s3) = ReadInt16 s2
                               in map_option (\<lambda>m. (m, s3)) (store_bytes mem ptr (le_bytes 2 v)))
                  | UInt16 \<Rightarrow> (let (v, s3) = ReadUInt16 s2
                                in map_option (\<lambda>m. (m, s3)) (store_bytes mem ptr (le_bytes 2 v)))
                  | Int32 \<Rightarrow> (let (v, s3) = ReadInt32 s2
                               in map_option (\<lambda>m. (m, s3)) (store_bytes mem ptr (le_bytes 4 v)))
                  | UInt32 \<Rightarrow> (let (v, s3) = ReadUInt32 s2
                                in map_option (\<lambda>m. (m, s3)) (store_bytes mem ptr (le_bytes 4 v)))
                  | Int64 \<Rightarrow> (let (v, s3) = ReadInt64 s2
                               in map_option (\<lambda>m. (m, s3)) (store_bytes mem ptr (le_bytes 8 v)))
                  | UInt64 \<Rightarrow> (let (v, s3) = ReadUInt64 s2
                                in map_option (\<lambda>m. (m, s3)) (store_bytes mem ptr (le_bytes 8 v)))
                  | Float \<Rightarrow> (let (v, s3) = ReadFloat s2
                               in map_option (\<lambda>m. (m, s3)) (store_bytes mem ptr (le_bytes 4 v)))
                  | Double \<Rightarrow> (let (v, s3) = ReadDouble s2
                                in map_option (\<lambda>m. (m, s3)) (store_bytes mem ptr (le_bytes 8 v)))
                  | Vector3 \<Rightarrow>
                      (let (v, s3) = ReadVector3 s2
                       in map_option (\<lambda>m. (m, s3))
                            (store_bytes mem ptr
                               (le_bytes 4 (vec_x v) @ le_bytes 4 (vec_y v) @ le_bytes 4 (vec_z v))))
                  | Quaternion \<Rightarrow>
                      (let (v, s3) = ReadQuaternion s2
                       in map_option (\<lambda>m. (m, s3))
                            (store_bytes mem ptr
                               (le_bytes 4 (quat_w v) @ le_bytes 4 (quat_x v) @ le_bytes 4 (quat_y v)
                                  @ le_bytes 4 (quat_z v))))
                  | String \<Rightarrow> (let (v, s3) = ReadString s2
                                in map_option (\<lambda>m. (m, s3)) (store_string mem ptr v))
                  | _ \<Rightarrow> Some (mem, s2))
           in case stored_value of
                None \<Rightarrow> None
              | Some (mem1, s3) \<Rightarrow> map_option (\<lambda>p2. (mem1, p2, s3)) (UpdateLastValue mem1 p1)))"

text \<open>
  An actor. \<open>typeName\<close> is what the virtual \<open>GetTypeName()\<close> returns, \<open>m_fields\<close> holds the
  data members a derived class registers as properties, and \<open>m_world\<close> says whether the
  back pointer to the world is set. The registered properties are an \<open>unordered_map\<close>, here
  an association list with one entry for each name, in the order the map iterates.
\<close>

record Actor =
  m_netId :: "32 word"
  m_replicates :: bool
  m_world :: bool
  m_position :: vec3
  m_rotation :: quat
  m_scale :: vec3
  m_replicatedProperties :: "(string \<times> ReplicatedProperty) list"
  typeName :: string
  m_fields :: memory

text \<open>\<open>Actor()\<close>; \<open>0x3F800000\<close> is the \<open>float\<close> 1.\<close>

definition Actor_new :: Actor where
  "Actor_new =
     \<lparr>m_netId = 0, m_replicates = False, m_world = False,
      m_position = \<lparr>vec_x = 0, vec_y = 0, vec_z = 0\<rparr>,
      m_rotation = \<lparr>quat_w = 0x3F800000, quat_x = 0, quat_y = 0, quat_z = 0\<rparr>,
      m_scale = \<lparr>vec_x = 0x3F800000, vec_y = 0x3F800000, vec_z = 0x3F800000\<rparr>,
      m_replicatedProperties = [], typeName = ''Actor'', m_fields = []\<rparr>"

definition IsNetworked :: "Actor \<Rightarrow> bool" where
  "IsNetworked a \<longleftrightarrow> m_replicates a \<and> m_netId a \<noteq> 0"

definition GetReplicatedProperties :: "Actor \<Rightarrow> ReplicatedProperty list" where
  "GetReplicatedProperties a = map snd (m_replicatedProperties a)"

definition RegisterReplicatedProperty ::
  "Actor \<Rightarrow> string \<Rightarrow> nat option \<Rightarrow> PropertyType \<Rightarrow> nat \<Rightarrow> Actor" where
  "RegisterReplicatedProperty a n ptr t sz =
     a\<lparr>m_replicatedProperties :=
         AList.update n (ReplicatedProperty_new n t ptr sz) (m_replicatedProperties a)\<rparr>"

section \<open>The world (World.h, World.cpp)\<close>

text \<open>
  Actors live on the heap; the world owns them (\<open>m_actors\<close>, each with its address) and
  keeps their addresses in the iteration list, in the map from NetId to actor and in the
  list of pending destroys. \<open>w_nextAddress\<close> stands for the allocator. A factory makes a
  new actor each time it is called, or returns null, so it is given by the actor it makes.
  The hooks \<open>OnSpawn\<close>, \<open>OnDestroy\<close>, \<open>Tick\<close> and \<open>OnReplicated\<close> are code of the application:
  \<open>w_calls\<close> records each call made to one.
\<close>

datatype ActorCall = OnSpawn nat | OnDestroy nat | TickCall nat | OnReplicated nat

record World =
  m_actors :: "(nat \<times> Actor) list"
  m_actorList :: "nat list"
  m_actorsByNetId :: "(32 word \<times> nat) list"
  m_actorFactories :: "(string \<times> Actor option) list"
  m_nextNetId :: "32 word"
  m_pendingDestroy :: "nat list"
  w_nextAddress :: nat
  w_calls :: "ActorCall list"

definition World_new :: World where
  "World_new =
     \<lparr>m_actors = [], m_actorList = [], m_actorsByNetId = [], m_actorFactories = [],
      m_nextNetId = 1, m_pendingDestroy = [], w_nextAddress = 0, w_calls = []\<rparr>"

definition GenerateNetId :: "World \<Rightarrow> 32 word \<times> World" where
  "GenerateNetId w = (m_nextNetId w, w\<lparr>m_nextNetId := m_nextNetId w + 1\<rparr>)"

definition SpawnActor :: "World \<Rightarrow> Actor option \<Rightarrow> nat option \<times> World" where
  "SpawnActor w actor =
     (case actor of
        None \<Rightarrow> (None, w)
      | Some a \<Rightarrow>
          (let (netId, w1) = GenerateNetId w;
               a1 = a\<lparr>m_netId := netId, m_world := True\<rparr>;
               rawPtr = w_nextAddress w1
           in (Some rawPtr,
               w1\<lparr>m_actorsByNetId := AList.update (m_netId a1) rawPtr (m_actorsByNetId w1),
                  m_actorList := m_actorList w1 @ [rawPtr],
                  m_actors := m_actors w1 @ [(rawPtr, a1)],
                  w_nextAddress := Suc rawPtr,
                  w_calls := w_calls w1 @ [OnSpawn rawPtr]\<rparr>)))"

definition DestroyActor :: "World \<Rightarrow> nat option \<Rightarrow> World" where
  "DestroyActor w actor =
     (case actor of
        None \<Rightarrow> w
      | Some a \<Rightarrow>
          if a \<notin> set (m_pendingDestroy w)
          then w\<lparr>m_pendingDestroy := m_pendingDestroy w @ [a]\<rparr>
          else w)"

definition GetActorByNetId :: "World \<Rightarrow> 32 word \<Rightarrow> nat option" where
  "GetActorByNetId w netId = map_of (m_actorsByNetId w) netId"

definition DestroyActorById :: "World \<Rightarrow> 32 word \<Rightarrow> World" where
  "DestroyActorById w netId =
     (case GetActorByNetId w netId of
        Some a \<Rightarrow> DestroyActor w (Some a)
      | None \<Rightarrow> w)"

definition RegisterActorType :: "World \<Rightarrow> string \<Rightarrow> Actor option \<Rightarrow> World" where
  "RegisterActorType w n factory = w\<lparr>m_actorFactories := AList.update n factory (m_actorFactories w)\<rparr>"

definition SpawnActorByType :: "World \<Rightarrow> string \<Rightarrow> nat option \<times> World" where
  "SpawnActorByType w n =
     (case map_of (m_actorFactories w) n of
        None \<Rightarrow> (None, w)
      | Some factory \<Rightarrow> SpawnActor w factory)"

definition World_Clear :: "World \<Rightarrow> World" where
  "World_Clear w =
     w\<lparr>w_calls := w_calls w @ map (\<lambda>(q, a). OnDestroy q) (m_actors w),
       m_actors := [], m_actorList := [], m_actorsByNetId := [], m_pendingDestroy := [],
       m_nextNetId := 1\<rparr>"

text \<open>The actor behind a pointer, and acting on it.\<close>

definition the_actor :: "World \<Rightarrow> nat \<Rightarrow> Actor option" where
  "the_actor w ptr = map_of (m_actors w) ptr"

definition with_actor :: "nat \<Rightarrow> (Actor \<Rightarrow> Actor) \<Rightarrow> World \<Rightarrow> World" where
  "with_actor ptr f w =
     w\<lparr>m_actors := map (\<lambda>(q, a). if q = ptr then (q, f a) else (q, a)) (m_actors w)\<rparr>"

text \<open>
  \<open>World::Tick\<close>. A tick hook is code of the application. What matters here is what it asks
  of the world, and the model lets it ask for actors to be destroyed, by pointer or by
  NetId: \<open>hook a dt w\<close> is the list of such requests that the hook of the actor at \<open>a\<close> makes
  when the world is \<open>w\<close>. The first loop runs over \<open>m_actorList\<close>, which no request changes.
  The second loop runs over \<open>m_pendingDestroy\<close> and reads the NetId through each pointer:
  there is no result (\<open>None\<close>) when a pointer is not that of an owned actor.
\<close>

datatype WorldRequest = RequestDestroy nat | RequestDestroyById "32 word"

fun serve :: "World \<Rightarrow> WorldRequest list \<Rightarrow> World" where
  "serve w [] = w"
| "serve w (RequestDestroy a # rs) = serve (DestroyActor w (Some a)) rs"
| "serve w (RequestDestroyById netId # rs) = serve (DestroyActorById w netId) rs"

fun tick_actors :: "(nat \<Rightarrow> real \<Rightarrow> World \<Rightarrow> WorldRequest list) \<Rightarrow> real \<Rightarrow> nat list \<Rightarrow> World \<Rightarrow> World" where
  "tick_actors hook deltaTime [] w = w"
| "tick_actors hook deltaTime (a # as) w =
     tick_actors hook deltaTime as
       (serve (w\<lparr>w_calls := w_calls w @ [TickCall a]\<rparr>) (hook a deltaTime w))"

fun destroy_pending :: "nat list \<Rightarrow> World \<Rightarrow> World option" where
  "destroy_pending [] w = Some w"
| "destroy_pending (a # as) w =
     (case the_actor w a of
        None \<Rightarrow> None
      | Some actor \<Rightarrow>
          destroy_pending as
            (w\<lparr>w_calls := w_calls w @ [OnDestroy a],
               m_actorsByNetId := AList.delete (m_netId actor) (m_actorsByNetId w),
               m_actorList := removeAll a (m_actorList w),
               m_actors := filter (\<lambda>(q, _). q \<noteq> a) (m_actors w)\<rparr>))"

definition World_Tick ::
  "(nat \<Rightarrow> real \<Rightarrow> World \<Rightarrow> WorldRequest list) \<Rightarrow> World \<Rightarrow> real \<Rightarrow> World option" where
  "World_Tick hook w deltaTime =
     (let w1 = tick_actors hook deltaTime (m_actorList w) w
      in case destroy_pending (m_pendingDestroy w1) w1 of
           None \<Rightarrow> None
         | Some w2 \<Rightarrow> Some (w2\<lparr>m_pendingDestroy := []\<rparr>))"

text \<open>The NetIds held by the actors alive in the world, one for each actor.\<close>

definition live_netIds :: "World \<Rightarrow> 32 word list" where
  "live_netIds w = map (\<lambda>(q, a). m_netId a) (m_actors w)"

section \<open>Replication, receiving side (ReplicationManager.cpp)\<close>

definition HandleActorSpawn :: "World \<Rightarrow> Packet \<Rightarrow> World \<times> Packet" where
  "HandleActorSpawn w packet =
     (let (netId, s1) = ReadUInt32 (m_payload packet);
          (tn, s2) = ReadString s1;
          (position, s3) = ReadVector3 s2;
          (rotation, s4) = ReadQuaternion s3;
          (actor, w1) = SpawnActorByType w tn
      in case actor of
           Some ptr \<Rightarrow>
             (with_actor ptr
                (\<lambda>a. a\<lparr>m_netId := netId, m_position := position, m_rotation := rotation,
                        m_replicates := True\<rparr>) w1,
              packet\<lparr>m_payload := s4\<rparr>)
         | None \<Rightarrow> (w1, packet\<lparr>m_payload := s4\<rparr>))"

definition HandleActorDestroy :: "World \<Rightarrow> Packet \<Rightarrow> World \<times> Packet" where
  "HandleActorDestroy w packet =
     (let (netId, s1) = ReadUInt32 (m_payload packet)
      in (DestroyActorById w netId, packet\<lparr>m_payload := s1\<rparr>))"

text \<open>\<open>for (j = 0; j < readPos - 1; ++j) ReadUInt8();\<close>\<close>

fun skip_bytes :: "nat \<Rightarrow> BitStream \<Rightarrow> BitStream" where
  "skip_bytes 0 s = s"
| "skip_bytes (Suc j) s = skip_bytes j (snd (ReadUInt8 s))"

text \<open>
  The loop of \<open>HandleActorUpdate\<close> over the \<open>propertyCount\<close> entries. For a name the actor
  has registered, the source moves the cursor back to just before the kind byte it has
  read (reset, then \<open>readPos - 1\<close> single reads) and calls \<open>Deserialize\<close> on the property.
\<close>

fun update_properties :: "nat \<Rightarrow> Actor \<Rightarrow> BitStream \<Rightarrow> (Actor \<times> BitStream) option" where
  "update_properties 0 a s = Some (a, s)"
| "update_properties (Suc i) a s =
     (let (propName, s1) = ReadString s;
          (propType, s2) = ReadUInt8 s1
      in case map_of (m_replicatedProperties a) propName of
           None \<Rightarrow> update_properties i a s2
         | Some prop \<Rightarrow>
             (let readPos = GetReadPos s2;
                  s3 = skip_bytes (readPos - 1) (ResetReadPos s2)
              in case ReplicatedProperty_Deserialize (m_fields a) prop s3 of
                   None \<Rightarrow> None
                 | Some (mem, prop1, s4) \<Rightarrow>
                     update_properties i
                       (a\<lparr>m_fields := mem,
                          m_replicatedProperties :=
                            AList.update propName prop1 (m_replicatedProperties a)\<rparr>)
                       s4))"

definition HandleActorUpdate :: "World \<Rightarrow> Packet \<Rightarrow> (World \<times> Packet) option" where
  "HandleActorUpdate w packet =
     (let (netId, s1) = ReadUInt32 (m_payload packet);
          (propertyCount, s2) = ReadUInt32 s1
      in case GetActorByNetId w netId of
           None \<Rightarrow> Some (w, packet\<lparr>m_payload := s2\<rparr>)
         | Some ptr \<Rightarrow>
             (case the_actor w ptr of
                None \<Rightarrow> None
              | Some a \<Rightarrow>
                  (case update_properties (unat propertyCount) a s2 of
                     None \<Rightarrow> None
                   | Some (a1, s3) \<Rightarrow>
                       Some ((with_actor ptr (\<lambda>_. a1) w)\<lparr>w_calls := w_calls w @ [OnReplicated ptr]\<rparr>,
                             packet\<lparr>m_payload := s3\<rparr>))))"

definition ProcessActorReplication :: "World \<Rightarrow> Packet \<Rightarrow> (World \<times> Packet) option" where
  "ProcessActorReplication w packet =
     (if GetType packet = ActorSpawn then Some (HandleActorSpawn w packet)
      else if GetType packet = ActorDestroy then Some (HandleActorDestroy w packet)
      else if GetType packet = ActorReplication then HandleActorUpdate w packet
      else Some (w, packet))"

section \<open>Remote procedure calls, receiving side (RPCManager.h, RPCManager.cpp)\<close>

datatype RPCType = RPCType_Server | RPCType_Client | RPCType_Multicast

text \<open>
  A handler is a function object of the application, of any type \<open>'h\<close> here. \<open>ProcessRPC\<close>
  either calls one handler, with an actor and a parameter stream, or calls none: the model
  returns the call made, if any, and the packet, whose payload cursor has moved.
\<close>

record 'h RPCMetadata =
  rpc_name :: string
  rpc_type :: RPCType
  rpc_handler :: 'h

definition RegisterRPC ::
  "(string \<times> 'h RPCMetadata) list \<Rightarrow> string \<Rightarrow> RPCType \<Rightarrow> 'h \<Rightarrow> (string \<times> 'h RPCMetadata) list" where
  "RegisterRPC m_rpcRegistry functionName t handler =
     AList.update functionName \<lparr>rpc_name = functionName, rpc_type = t, rpc_handler = handler\<rparr>
       m_rpcRegistry"

definition expectedPacketType :: "RPCType \<Rightarrow> PacketType" where
  "expectedPacketType t =
     (case t of
        RPCType_Server \<Rightarrow> RPCServer
      | RPCType_Client \<Rightarrow> RPCClient
      | RPCType_Multicast \<Rightarrow> RPCMulticast)"

definition ProcessRPC ::
  "World \<Rightarrow> (string \<times> 'h RPCMetadata) list \<Rightarrow> Packet \<Rightarrow> ('h \<times> nat \<times> BitStream) option \<times> Packet" where
  "ProcessRPC w m_rpcRegistry packet =
     (let (actorNetId, s1) = ReadUInt32 (m_payload packet);
          (functionName, s2) = ReadString s1;
          packet1 = packet\<lparr>m_payload := s2\<rparr>
      in case GetActorByNetId w actorNetId of
           None \<Rightarrow> (None, packet1)
         | Some actor \<Rightarrow>
             (case map_of m_rpcRegistry functionName of
                None \<Rightarrow> (None, packet1)
              | Some metadata \<Rightarrow>
                  if GetType packet \<noteq> expectedPacketType (rpc_type metadata) then (None, packet1)
                  else
                    (let params = BitStream_of (take (GetBytesRemaining s2) (drop (GetReadPos s2) (GetData s2)))
                     in (Some (rpc_handler metadata, actor, params), packet1))))"

section \<open>Replication, sending side (ReplicationManager.cpp)\<close>

text \<open>
  \<open>SendActorUpdate\<close> runs three loops over the registered properties: is any changed (it
  stops at the first), how many are changed, and then it serializes each changed one and
  refreshes its cache. The model returns the actor, whose caches have changed, and the
  packet handed to \<open>NetDriver::SendPacket\<close> to be sent reliably, if there is one.
\<close>

fun any_changed :: "memory \<Rightarrow> ReplicatedProperty list \<Rightarrow> bool option" where
  "any_changed mem [] = Some False"
| "any_changed mem (p # ps) =
     (case HasChanged mem p of
        None \<Rightarrow> None
      | Some True \<Rightarrow> Some True
      | Some False \<Rightarrow> any_changed mem ps)"

fun count_changed :: "memory \<Rightarrow> ReplicatedProperty list \<Rightarrow> 32 word option" where
  "count_changed mem [] = Some 0"
| "count_changed mem (p # ps) =
     (case HasChanged mem p of
        None \<Rightarrow> None
      | Some c \<Rightarrow> map_option (\<lambda>n. if c then n + 1 else n) (count_changed mem ps))"

fun serialize_changed ::
  "memory \<Rightarrow> (string \<times> ReplicatedProperty) list \<Rightarrow> BitStream \<Rightarrow>
   ((string \<times> ReplicatedProperty) list \<times> BitStream) option" where
  "serialize_changed mem [] s = Some ([], s)"
| "serialize_changed mem ((k, p) # ps) s =
     (case HasChanged mem p of
        None \<Rightarrow> None
      | Some False \<Rightarrow> map_option (\<lambda>(qs, s1). ((k, p) # qs, s1)) (serialize_changed mem ps s)
      | Some True \<Rightarrow>
          (case ReplicatedProperty_Serialize mem p s of
             None \<Rightarrow> None
           | Some s1 \<Rightarrow>
               (case UpdateLastValue mem p of
                  None \<Rightarrow> None
                | Some p1 \<Rightarrow>
                    map_option (\<lambda>(qs, s2). ((k, p1) # qs, s2)) (serialize_changed mem ps s1))))"

definition SendActorUpdate :: "Actor \<Rightarrow> (Actor \<times> Packet option) option" where
  "SendActorUpdate actor =
     (let properties = GetReplicatedProperties actor
      in case any_changed (m_fields actor) properties of
           None \<Rightarrow> None
         | Some False \<Rightarrow> Some (actor, None)
         | Some True \<Rightarrow>
             (let packet = Packet_Write_u32 (Packet_of_type ActorReplication) (m_netId actor)
              in case count_changed (m_fields actor) properties of
                   None \<Rightarrow> None
                 | Some changedCount \<Rightarrow>
                     (let packet1 = Packet_Write_u32 packet changedCount
                      in case serialize_changed (m_fields actor) (m_replicatedProperties actor)
                                (m_payload packet1) of
                           None \<Rightarrow> None
                         | Some (props, s) \<Rightarrow>
                             Some (actor\<lparr>m_replicatedProperties := props\<rparr>,
                                   Some (packet1\<lparr>m_payload := s\<rparr>)))))"

text \<open>The actor id and the function name that \<open>ProcessRPC\<close> reads from the payload of a packet.\<close>

definition rpc_actor_id :: "Packet \<Rightarrow> 32 word" where
  "rpc_actor_id packet = fst (ReadUInt32 (m_payload packet))"

definition rpc_function_name :: "Packet \<Rightarrow> string" where
  "rpc_function_name packet = fst (ReadString (snd (ReadUInt32 (m_payload packet))))"

section \<open>Values the statements about the world speak of\<close>

text \<open>The addresses of the actors the world owns.\<close>

definition owned :: "World \<Rightarrow> nat set" where
  "owned w = fst ` set (m_actors w)"

text \<open>The pending-destroy list when the first loop of \<open>World::Tick\<close> has run every tick hook.\<close>

definition doomed :: "(nat \<Rightarrow> real \<Rightarrow> World \<Rightarrow> WorldRequest list) \<Rightarrow> real \<Rightarrow> World \<Rightarrow> nat list" where
  "doomed hook deltaTime w = m_pendingDestroy (tick_actors hook deltaTime (m_actorList w) w)"

text \<open>
  No pointer is pending twice, and the pending pointers and those in the map from NetId are
  pointers to owned actors.
\<close>

definition pointers_valid :: "World \<Rightarrow> bool" where
  "pointers_valid w \<longleftrightarrow>
     distinct (m_pendingDestroy w) \<and> set (m_pendingDestroy w) \<subseteq> owned w
     \<and> list_all (\<lambda>(k, p). p \<in> owned w) (m_actorsByNetId w)"

text \<open>Each entry of the map from NetId leads to an actor that holds that NetId.\<close>

definition idmap_consistent :: "World \<Rightarrow> bool" where
  "idmap_consistent w \<longleftrightarrow>
     list_all (\<lambda>(k, p). map_option m_netId (the_actor w p) = Some k) (m_actorsByNetId w)"

text \<open>
  The tick hooks ask for the destruction of owned actors only, whatever the pending list
  is when they run.
\<close>

definition requests_owned ::
  "(nat \<Rightarrow> real \<Rightarrow> World \<Rightarrow> WorldRequest list) \<Rightarrow> real \<Rightarrow> World \<Rightarrow> bool" where
  "requests_owned hook deltaTime w \<longleftrightarrow>
     (\<forall>b \<in> set (m_actorList w). \<forall>w1 a. m_actors w1 = m_actors w \<longrightarrow>
        RequestDestroy a \<in> set (hook b deltaTime w1) \<longrightarrow> a \<in> owned w)"

text \<open>A data member, and a registered property, of the actor at an address.\<close>

definition field_object :: "World \<Rightarrow> nat \<Rightarrow> nat \<Rightarrow> obj option" where
  "field_object w ptr address = (case the_actor w ptr of None \<Rightarrow> None | Some a \<Rightarrow> map_of (m_fields a) address)"

definition property_entry :: "World \<Rightarrow> nat \<Rightarrow> string \<Rightarrow> ReplicatedProperty option" where
  "property_entry w ptr n =
     (case the_actor w ptr of None \<Rightarrow> None | Some a \<Rightarrow> map_of (m_replicatedProperties a) n)"

section \<open>Concrete inputs\<close>

text \<open>
  The states and messages at which the theorems below are instantiated: a packet (an
  \<open>ActorDestroy\<close> of actor 7 with sequence 5), two peers, a server with no connection, a
  server that has accepted peer A, a client that has asked peer A for a connection.
\<close>

definition sample_packet :: Packet where
  "sample_packet = (SetSequence (Packet_of_type ActorDestroy) 5)\<lparr>m_payload := WriteUInt32 BitStream_empty 7\<rparr>"

definition peer_A :: WVSocketAddress where
  "peer_A = \<lparr>sin_addr = 0x0100007F, sin_port = 0x1E61, m_isValid = True\<rparr>"

definition peer_B :: WVSocketAddress where
  "peer_B = \<lparr>sin_addr = 0x0200007F, sin_port = 0x1E61, m_isValid = True\<rparr>"

definition server_empty :: "nat \<Rightarrow> NetDriver" where
  "server_empty cap =
     \<lparr>m_mode = Server, m_socket = \<lparr>sock_valid = True, sock_sent = []\<rparr>,
      m_maxConnections = word_of_nat cap, m_connections = [], m_connectionList = [],
      m_serverConnection = None, m_onConnection = True, m_onDisconnection = True,
      m_onPacket = True, m_connectionTimeout = 30, m_nextAddress = 0, m_calls = []\<rparr>"

definition server_with_A :: "nat \<Rightarrow> NetDriver" where
  "server_with_A cap =
     (server_empty cap)
       \<lparr>m_connections := [(0, accepted_connection peer_A)], m_connectionList := [0],
        m_nextAddress := 1, m_calls := [OnConnection 0]\<rparr>"

definition client_connecting :: NetDriver where
  "client_connecting =
     \<lparr>m_mode = Client, m_socket = \<lparr>sock_valid = True, sock_sent = []\<rparr>,
      m_maxConnections = 64,
      m_connections =
        [(0, NetConnection_SendPacket (NetConnection_new peer_A) (Packet_of_type ConnectionRequest) True)],
      m_connectionList = [0], m_serverConnection = Some 0, m_onConnection = True,
      m_onDisconnection = True, m_onPacket = True, m_connectionTimeout = 30,
      m_nextAddress = 1, m_calls = []\<rparr>"

text \<open>
  An RPC packet as \<open>SendRPC\<close> builds it, without parameters; a world with one actor, which
  has NetId 1 and address 0; a registry with \<open>Fire\<close> declared \<open>Server\<close> and \<open>Notify\<close> declared
  \<open>Client\<close>, the handlers being numbered.
\<close>

definition rpc_packet :: "PacketType \<Rightarrow> 32 word \<Rightarrow> string \<Rightarrow> Packet" where
  "rpc_packet t netId n =
     (Packet_of_type t)\<lparr>m_payload := WriteString (WriteUInt32 BitStream_empty netId) n\<rparr>"

definition world_one_actor :: World where
  "world_one_actor = snd (SpawnActor World_new (Some Actor_new))"

definition sample_registry :: "(string \<times> nat RPCMetadata) list" where
  "sample_registry = RegisterRPC (RegisterRPC [] ''Fire'' RPCType_Server 0) ''Notify'' RPCType_Client 1"

text \<open>
  The \<open>PlayerActor\<close> of the sample server: an \<open>int32_t\<close> health at address 0 and a
  \<open>vec3\<close> position at address 1, both registered. The property record made for the health
  at registration. A client world that knows the type, and one in which the player has
  been spawned (NetId 1, address 0).
\<close>

definition player_actor :: "32 word \<Rightarrow> Actor" where
  "player_actor health =
     RegisterReplicatedProperty
       (RegisterReplicatedProperty
          (Actor_new\<lparr>typeName := ''PlayerActor'', m_replicates := True,
                      m_fields := [(0, Bytes (le_bytes 4 health)), (1, Bytes (replicate 12 0))]\<rparr>)
          ''Health'' (Some 0) Int32 4)
       ''Position'' (Some 1) Vector3 12"

definition health_property :: ReplicatedProperty where
  "health_property = ReplicatedProperty_new ''Health'' Int32 (Some 0) 4"

definition client_world :: World where
  "client_world = RegisterActorType World_new ''PlayerActor'' (Some (player_actor 100))"

definition client_world_with_player :: World where
  "client_world_with_player = snd (SpawnActorByType client_world ''PlayerActor'')"

text \<open>
  An \<open>ActorReplication\<close> packet for actor 1 with one changed property, the health, now 57:
  NetId, count, name, kind byte 5, value. An \<open>ActorSpawn\<close> packet as \<open>SendActorSpawn\<close> writes
  it.
\<close>

definition health_update_payload :: BitStream where
  "health_update_payload =
     WriteInt32 (WriteUInt8 (WriteString (WriteUInt32 (WriteUInt32 BitStream_empty 1) 1) ''Health'') 5) 57"

definition health_update_packet :: Packet where
  "health_update_packet = (Packet_of_type ActorReplication)\<lparr>m_payload := health_update_payload\<rparr>"

definition spawn_packet :: "32 word \<Rightarrow> Packet" where
  "spawn_packet netId =
     (Packet_of_type ActorSpawn)
       \<lparr>m_payload :=
          WriteQuaternion
            (WriteVector3 (WriteString (WriteUInt32 BitStream_empty netId) ''PlayerActor'')
               (m_position Actor_new))
            (m_rotation Actor_new)\<rparr>"

text \<open>
  A world with two actors (NetIds 1 and 2, addresses 0 and 1); tick hooks in which actor 0
  asks for its own destruction twice by pointer and once by NetId; and tick hooks that ask
  for nothing.
\<close>

definition world_two_actors :: World where
  "world_two_actors = snd (SpawnActor (snd (SpawnActor World_new (Some Actor_new))) (Some Actor_new))"

definition sample_hook :: "nat \<Rightarrow> real \<Rightarrow> World \<Rightarrow> WorldRequest list" where
  "sample_hook b deltaTime w =
     (if b = 0 then [RequestDestroy 0, RequestDestroy 0, RequestDestroyById 1] else [])"

definition no_requests :: "nat \<Rightarrow> real \<Rightarrow> World \<Rightarrow> WorldRequest list" where
  "no_requests b deltaTime w = []"


text \<open>
  An \<open>ActorDestroy\<close> packet as \<open>SendActorDestroy\<close> writes it. The client world after it has
  handled an \<open>ActorSpawn\<close> for NetId 7 (one actor, at address 0), and after it has handled
  one for NetId 2 and then one for NetId 1 (actors at addresses 0 and 1). Tick hooks in
  which every actor asks for its own destruction, by pointer and by the NetId it holds.
\<close>

definition destroy_packet :: "32 word \<Rightarrow> Packet" where
  "destroy_packet netId = Packet_Write_u32 (Packet_of_type ActorDestroy) netId"

definition client_world_spawned_7 :: World where
  "client_world_spawned_7 = fst (HandleActorSpawn client_world (spawn_packet 7))"

definition client_world_spawned_2_1 :: World where
  "client_world_spawned_2_1 =
     fst (HandleActorSpawn (fst (HandleActorSpawn client_world (spawn_packet 2))) (spawn_packet 1))"

definition destroy_self :: "nat \<Rightarrow> real \<Rightarrow> World \<Rightarrow> WorldRequest list" where
  "destroy_self b deltaTime w = [RequestDestroy b]"

definition destroy_self_by_id :: "nat \<Rightarrow> real \<Rightarrow> World \<Rightarrow> WorldRequest list" where
  "destroy_self_by_id b deltaTime w =
     (case the_actor w b of None \<Rightarrow> [] | Some a \<Rightarrow> [RequestDestroyById (m_netId a)])"
section \<open>Properties of the codec\<close>

lemma length_le_bytes [simp]: "length (le_bytes n w) = n"
  by (induction n arbitrary: w) simp_all

lemma le_bytes_numeral:
  "le_bytes (numeral k) w = ucast w # le_bytes (pred_numeral k) (drop_bit 8 w)"
  by (simp add: numeral_eq_Suc)

lemma le_word_le_bytes_take:
  "(le_word (le_bytes n w) :: 'a::len word) = take_bit (8 * n) (w :: 'a word)"
proof (induction n arbitrary: w)
  case 0
  then show ?case by simp
next
  case (Suc n)
  show ?case
    apply (simp add: Suc)
    apply (rule bit_word_eqI)
    apply (auto simp add: bit_simps)
    done
qed

lemma le_word_le_bytes:
  "LENGTH('a::len) \<le> 8 * n \<Longrightarrow> (le_word (le_bytes n w) :: 'a word) = w"
  by (simp add: le_word_le_bytes_take take_bit_word_eq_self)

lemma char_of_byte_of_char [simp]: "char_of_byte (byte_of_char c) = c"
proof -
  have "(of_char c :: byte) = of_nat ((of_char c) :: nat)"
    by (simp add: of_nat_of_char)
  then have "unat (of_char c :: byte) = (of_char c :: nat) mod 256"
    by (simp add: unat_of_nat)
  then have "unat (of_char c :: byte) = (of_char c :: nat)"
    by (simp add: of_char_mod_256)
  then show ?thesis
    by (simp add: char_of_byte_def byte_of_char_def)
qed

lemma byte_of_char_of_byte [simp]: "byte_of_char (char_of_byte b) = b"
proof -
  have "(of_char (char_of (unat b)) :: byte) = of_nat ((of_char (char_of (unat b))) :: nat)"
    by (simp only: of_nat_of_char)
  also have "\<dots> = of_nat (unat b mod 256)"
    by (simp only: of_char_of)
  also have "\<dots> = of_nat (unat b)"
    using unsigned_less [of b, where ?'a = nat] by simp
  finally show ?thesis
    by (simp add: char_of_byte_def byte_of_char_def)
qed

lemma Write_writePos [simp]: "m_writePos (Write s d) = m_writePos s + length d"
  by (simp add: Write_def EnsureCapacity_def Let_def)

lemma Write_readPos [simp]: "m_readPos (Write s d) = m_readPos s"
  by (simp add: Write_def EnsureCapacity_def Let_def)

lemma length_buffer_Write [simp]:
  "length (m_buffer (Write s d)) = max (length (m_buffer s)) (m_writePos s + length d)"
  by (auto simp add: Write_def EnsureCapacity_def Let_def)

lemma length_stored [simp]: "length (stored s) = m_writePos s"
  by (simp add: stored_def)

lemma stored_readPos [simp]: "stored (s\<lparr>m_readPos := r\<rparr>) = stored s"
  by (simp add: stored_def)

lemma stored_Write [simp]: "stored (Write s d) = stored s @ d"
  by (auto simp add: stored_def Write_def EnsureCapacity_def Let_def)

lemma stored_written: "m_writePos s \<le> length (m_buffer s) \<Longrightarrow> stored s = written s"
  by (simp add: stored_def written_def GetSize_def GetData_def)

lemma Read_stored:
  assumes "m_writePos s \<le> length (m_buffer s)" "m_readPos s + n \<le> m_writePos s"
  shows "Read s n = (Some (take n (drop (m_readPos s) (stored s))), s\<lparr>m_readPos := m_readPos s + n\<rparr>)"
  using assms by (simp add: Read_def CanRead_def stored_def take_drop)

lemma ReadScalar_stored:
  assumes "m_writePos s \<le> length (m_buffer s)" "m_readPos s + n \<le> m_writePos s"
  shows "ReadScalar n s =
           (le_word (take n (drop (m_readPos s) (stored s))), s\<lparr>m_readPos := m_readPos s + n\<rparr>)"
  by (simp add: ReadScalar_def Read_stored [OF assms])

lemma ReadScalar_Write:
  assumes "m_readPos s = m_writePos s" "LENGTH('a::len) \<le> 8 * n"
  shows "ReadScalar n (Write s (le_bytes n (v :: 'a word))) =
           (v, (Write s (le_bytes n v))\<lparr>m_readPos := m_writePos s + n\<rparr>)"
  by (subst ReadScalar_stored) (simp_all add: assms le_word_le_bytes)

lemma ReadString_WriteString:
  assumes "m_readPos s = m_writePos s" "length v < 2 ^ 32"
  shows "fst (ReadString (WriteString s v)) = v"
proof (cases "v = []")
  case True
  have "ReadUInt32 (Write s (le_bytes 4 (0 :: 32 word))) =
          (0, (Write s (le_bytes 4 (0 :: 32 word)))\<lparr>m_readPos := m_writePos s + 4\<rparr>)"
    unfolding ReadUInt32_def using assms(1) by (rule ReadScalar_Write) simp
  then show ?thesis using True
    by (simp add: ReadString_def WriteString_def WriteUInt32_def)
next
  case False
  let ?len = "word_of_nat (length v) :: 32 word"
  have ul: "unat ?len = length v" using assms(2) by (simp add: unat_of_nat take_bit_nat_eq_self)
  then have pos: "?len > 0" using False by (simp add: word_neq_0_conv [symmetric] unat_gt_0 [symmetric])
  let ?t = "Write (Write s (le_bytes 4 ?len)) (map byte_of_char v)"
  let ?t1 = "?t\<lparr>m_readPos := m_writePos s + 4\<rparr>"
  have r1: "ReadUInt32 ?t = (?len, ?t1)"
    unfolding ReadUInt32_def
    by (subst ReadScalar_stored) (simp_all add: assms(1) le_word_le_bytes)
  have cr: "CanRead ?t1 (length v)" by (simp add: CanRead_def)
  have r2: "Read ?t1 (length v) = (Some (map byte_of_char v), ?t1\<lparr>m_readPos := m_writePos s + 4 + length v\<rparr>)"
    by (subst Read_stored) (simp_all add: assms(1))
  have w: "WriteString s v = ?t" using pos by (simp add: WriteString_def WriteUInt32_def Let_def ul)
  have ne: "?len \<noteq> 0" using pos by simp
  show ?thesis
    unfolding w ReadString_def r1 using ne cr r2
    by (simp add: ul comp_def)
qed

lemma ReadVector3_WriteVector3:
  assumes "m_readPos s = m_writePos s"
  shows "fst (ReadVector3 (WriteVector3 s v)) = v"
proof -
  let ?t = "Write (Write (Write s (le_bytes 4 (vec_x v))) (le_bytes 4 (vec_y v))) (le_bytes 4 (vec_z v))"
  have r1: "ReadFloat ?t = (vec_x v, ?t\<lparr>m_readPos := m_writePos s + 4\<rparr>)"
    unfolding ReadFloat_def
    by (subst ReadScalar_stored) (simp_all add: assms le_word_le_bytes)
  have r2: "ReadFloat (?t\<lparr>m_readPos := m_writePos s + 4\<rparr>) = (vec_y v, ?t\<lparr>m_readPos := m_writePos s + 8\<rparr>)"
    unfolding ReadFloat_def
    by (subst ReadScalar_stored) (simp_all add: assms le_word_le_bytes)
  have r3: "ReadFloat (?t\<lparr>m_readPos := m_writePos s + 8\<rparr>) = (vec_z v, ?t\<lparr>m_readPos := m_writePos s + 12\<rparr>)"
    unfolding ReadFloat_def
    by (subst ReadScalar_stored) (simp_all add: assms le_word_le_bytes)
  show ?thesis
    by (simp add: ReadVector3_def WriteVector3_def WriteFloat_def r1 r2 r3)
qed

lemma ReadQuaternion_WriteQuaternion:
  assumes "m_readPos s = m_writePos s"
  shows "fst (ReadQuaternion (WriteQuaternion s v)) = v"
proof -
  let ?t = "Write (Write (Write (Write s (le_bytes 4 (quat_w v))) (le_bytes 4 (quat_x v)))
               (le_bytes 4 (quat_y v))) (le_bytes 4 (quat_z v))"
  have r1: "ReadFloat ?t = (quat_w v, ?t\<lparr>m_readPos := m_writePos s + 4\<rparr>)"
    unfolding ReadFloat_def
    by (subst ReadScalar_stored) (simp_all add: assms le_word_le_bytes)
  have r2: "ReadFloat (?t\<lparr>m_readPos := m_writePos s + 4\<rparr>) = (quat_x v, ?t\<lparr>m_readPos := m_writePos s + 8\<rparr>)"
    unfolding ReadFloat_def
    by (subst ReadScalar_stored) (simp_all add: assms le_word_le_bytes)
  have r3: "ReadFloat (?t\<lparr>m_readPos := m_writePos s + 8\<rparr>) = (quat_y v, ?t\<lparr>m_readPos := m_writePos s + 12\<rparr>)"
    unfolding ReadFloat_def
    by (subst ReadScalar_stored) (simp_all add: assms le_word_le_bytes)
  have r4: "ReadFloat (?t\<lparr>m_readPos := m_writePos s + 12\<rparr>) = (quat_z v, ?t\<lparr>m_readPos := m_writePos s + 16\<rparr>)"
    unfolding ReadFloat_def
    by (subst ReadScalar_stored) (simp_all add: assms le_word_le_bytes)
  show ?thesis
    by (simp add: ReadQuaternion_def WriteQuaternion_def WriteFloat_def r1 r2 r3 r4)
qed

lemma PacketHeader_Deserialize_stored:
  assumes wf: "m_writePos t \<le> length (m_buffer t)"
    and len: "m_readPos t + 12 \<le> m_writePos t"
    and bytes: "drop (m_readPos t) (stored t) =
                  le_bytes 4 m @ le_bytes 4 sq @ le_bytes 2 ty @ le_bytes 2 n @ rest"
  shows "PacketHeader_Deserialize t =
           (m = PACKET_MAGIC, \<lparr>magic = m, sequence = sq, packetType = ty, payloadSize = n\<rparr>,
            t\<lparr>m_readPos := m_readPos t + 12\<rparr>)"
proof -
  let ?r = "m_readPos t"
  have d: "\<And>k. drop (?r + k) (stored t) = drop k (drop ?r (stored t))"
    by (simp add: add.commute)
  have r1: "ReadUInt32 t = (m, t\<lparr>m_readPos := ?r + 4\<rparr>)"
    unfolding ReadUInt32_def using wf len
    by (subst ReadScalar_stored) (simp_all add: bytes le_word_le_bytes)
  have r2: "ReadUInt32 (t\<lparr>m_readPos := ?r + 4\<rparr>) = (sq, t\<lparr>m_readPos := ?r + 8\<rparr>)"
    unfolding ReadUInt32_def using wf len
    by (subst ReadScalar_stored) (simp_all add: d bytes le_word_le_bytes)
  have r3: "ReadUInt16 (t\<lparr>m_readPos := ?r + 8\<rparr>) = (ty, t\<lparr>m_readPos := ?r + 10\<rparr>)"
    unfolding ReadUInt16_def using wf len
    by (subst ReadScalar_stored) (simp_all add: d bytes le_word_le_bytes)
  have r4: "ReadUInt16 (t\<lparr>m_readPos := ?r + 10\<rparr>) = (n, t\<lparr>m_readPos := ?r + 12\<rparr>)"
    unfolding ReadUInt16_def using wf len
    by (subst ReadScalar_stored) (simp_all add: d bytes le_word_le_bytes)
  show ?thesis
    by (simp add: PacketHeader_Deserialize_def r1 r2 r3 r4)
qed

lemma stored_PacketHeader_Serialize:
  "stored (PacketHeader_Serialize h s) =
     stored s @ le_bytes 4 (magic h) @ le_bytes 4 (sequence h) @ le_bytes 2 (packetType h)
       @ le_bytes 2 (payloadSize h)"
  by (simp add: PacketHeader_Serialize_def WriteUInt32_def WriteUInt16_def)

lemma PacketHeader_Serialize_pos [simp]:
  "m_writePos (PacketHeader_Serialize h s) = m_writePos s + 12"
  "m_readPos (PacketHeader_Serialize h s) = m_readPos s"
  "m_writePos s + 12 \<le> length (m_buffer (PacketHeader_Serialize h s))"
  by (simp_all add: PacketHeader_Serialize_def WriteUInt32_def WriteUInt16_def)

lemma Packet_round_trip:
  assumes mg: "magic (m_header P) = PACKET_MAGIC"
    and sz: "GetSize (m_payload P) < 2 ^ 16"
    and wf: "m_writePos (m_payload P) \<le> length (m_buffer (m_payload P))"
    and out: "m_readPos out = m_writePos out"
    and q: "GetSize (m_payload q) = 0"
  shows "\<exists>R rest. Packet_Deserialize q (snd (Packet_Serialize P out)) = (True, R, rest)
           \<and> sequence (m_header R) = sequence (m_header P)
           \<and> packetType (m_header R) = packetType (m_header P)
           \<and> unat (payloadSize (m_header R)) = GetSize (m_payload P)
           \<and> GetSize (m_payload R) = GetSize (m_payload P)
           \<and> written (m_payload R) = written (m_payload P)"
proof -
  let ?n = "GetSize (m_payload P)"
  let ?h = "(m_header P)\<lparr>payloadSize := word_of_nat ?n\<rparr>"
  let ?pl = "take ?n (GetData (m_payload P))"
  have lpl: "length ?pl = ?n" using wf by (simp add: GetSize_def GetData_def)
  have un: "unat (word_of_nat ?n :: 16 word) = ?n"
    using sz by (simp add: unat_of_nat take_bit_nat_eq_self)
  let ?o1 = "PacketHeader_Serialize ?h out"
  show ?thesis
  proof (cases "?n = 0")
    case True
    have ser: "snd (Packet_Serialize P out) = ?o1"
      using True by (simp add: Packet_Serialize_def Let_def)
    have hd: "PacketHeader_Deserialize ?o1 =
                (magic ?h = PACKET_MAGIC,
                 \<lparr>magic = magic ?h, sequence = sequence ?h, packetType = packetType ?h,
                  payloadSize = payloadSize ?h\<rparr>, ?o1\<lparr>m_readPos := m_readPos ?o1 + 12\<rparr>)"
      by (rule PacketHeader_Deserialize_stored [where rest = "[]"])
         (simp_all add: stored_PacketHeader_Serialize out)
    show ?thesis
      unfolding ser Packet_Deserialize_def hd using True q mg
      by (simp add: written_def)
  next
    case False
    let ?o2 = "Write ?o1 ?pl"
    have ser: "snd (Packet_Serialize P out) = ?o2"
      using False by (simp add: Packet_Serialize_def Let_def)
    have hd: "PacketHeader_Deserialize ?o2 =
                (magic ?h = PACKET_MAGIC,
                 \<lparr>magic = magic ?h, sequence = sequence ?h, packetType = packetType ?h,
                  payloadSize = payloadSize ?h\<rparr>, ?o2\<lparr>m_readPos := m_readPos ?o2 + 12\<rparr>)"
      by (rule PacketHeader_Deserialize_stored [where rest = "?pl"])
         (simp_all add: stored_PacketHeader_Serialize out)
    let ?o3 = "?o2\<lparr>m_readPos := m_writePos out + 12\<rparr>"
    have cr: "CanRead ?o3 ?n" using lpl by (simp add: CanRead_def)
    have rd: "Read ?o3 ?n = (Some ?pl, ?o3\<lparr>m_readPos := m_writePos out + 12 + ?n\<rparr>)"
      using lpl by (subst Read_stored) (simp_all add: stored_PacketHeader_Serialize)
    have nz: "(word_of_nat ?n :: 16 word) \<noteq> 0" using False un by auto
    have un': "unat (word_of_nat (m_writePos (m_payload P)) :: 16 word) = m_writePos (m_payload P)"
      using un by (simp add: GetSize_def)
    have res: "Packet_Deserialize q ?o2 =
                 (True, q\<lparr>m_header := \<lparr>magic = magic ?h, sequence = sequence ?h,
                                packetType = packetType ?h, payloadSize = payloadSize ?h\<rparr>,
                            m_payload := BitStream_of ?pl\<rparr>,
                  ?o3\<lparr>m_readPos := m_writePos out + 12 + ?n\<rparr>)"
      unfolding Packet_Deserialize_def hd using nz mg cr rd
      by (simp add: out un word_neq_0_conv [symmetric])
    show ?thesis
      unfolding ser res using lpl
      by (simp add: written_def BitStream_of_def GetSize_def GetData_def un')
  qed
qed

lemma Packet_Deserialize_short_payload:
  assumes "PacketHeader_Deserialize s = (True, h, s1)"
    and "payloadSize h > 0"
    and "\<not> CanRead s1 (unat (payloadSize h))"
  shows "Packet_Deserialize p s = (False, p\<lparr>m_header := h\<rparr>, s1)"
  using assms by (simp add: Packet_Deserialize_def)

text \<open>
  Claim C3 (wire round trip). Reading a primitive from a stream right after writing it, with
  nothing unread before it, gives the value back: \<open>bool\<close>, the signed and unsigned 8, 16, 32
  and 64-bit integers, \<open>float\<close> and \<open>double\<close> (as bit patterns), a string whose length fits the
  32-bit length prefix, \<open>vec3\<close> and \<open>quat\<close>. A packet whose magic is \<open>PACKET_MAGIC\<close> and whose
  payload is a well-formed stream of fewer than \<open>2 ^ 16\<close> bytes, serialized and then
  deserialized into a packet with an empty payload (as \<open>Packet()\<close> is), succeeds and gives back
  the sequence number, the kind, the payload size and the payload bytes.
\<close>

theorem wire_round_trip:
  assumes "m_readPos s = m_writePos s"
    and "length str < 2 ^ 32"
    and "magic (m_header P) = PACKET_MAGIC"
    and "GetSize (m_payload P) < 2 ^ 16"
    and "BitStream_wf (m_payload P)"
    and "GetSize (m_payload q) = 0"
  shows "fst (ReadBool (WriteBool s b)) = b
       \<and> fst (ReadInt8 (WriteInt8 s i8)) = i8
       \<and> fst (ReadUInt8 (WriteUInt8 s u8)) = u8
       \<and> fst (ReadInt16 (WriteInt16 s i16)) = i16
       \<and> fst (ReadUInt16 (WriteUInt16 s u16)) = u16
       \<and> fst (ReadInt32 (WriteInt32 s i32)) = i32
       \<and> fst (ReadUInt32 (WriteUInt32 s u32)) = u32
       \<and> fst (ReadInt64 (WriteInt64 s i64)) = i64
       \<and> fst (ReadUInt64 (WriteUInt64 s u64)) = u64
       \<and> fst (ReadFloat (WriteFloat s f32)) = f32
       \<and> fst (ReadDouble (WriteDouble s f64)) = f64
       \<and> fst (ReadString (WriteString s str)) = str
       \<and> fst (ReadVector3 (WriteVector3 s v3)) = v3
       \<and> fst (ReadQuaternion (WriteQuaternion s qt)) = qt
       \<and> (\<exists>R rest. Packet_Deserialize q (snd (Packet_Serialize P s)) = (True, R, rest)
             \<and> sequence (m_header R) = sequence (m_header P)
             \<and> packetType (m_header R) = packetType (m_header P)
             \<and> unat (payloadSize (m_header R)) = GetSize (m_payload P)
             \<and> GetSize (m_payload R) = GetSize (m_payload P)
             \<and> written (m_payload R) = written (m_payload P))"
proof -
  note rs = ReadScalar_Write [OF assms(1)]
  have l: "LENGTH(8) \<le> 8 * (1 :: nat)" by simp
  have w8: "fst (ReadInt8 (WriteInt8 s x)) = x" "fst (ReadUInt8 (WriteUInt8 s x)) = x" for x
    unfolding ReadInt8_def WriteInt8_def ReadUInt8_def WriteUInt8_def rs [OF l]
    by (rule fst_conv)+
  have b: "fst (ReadBool (WriteBool s b)) = b"
    by (simp add: ReadBool_def WriteBool_def split_beta w8(2))
  have w16: "fst (ReadInt16 (WriteInt16 s i16)) = i16" "fst (ReadUInt16 (WriteUInt16 s u16)) = u16"
    by (simp_all add: ReadInt16_def WriteInt16_def ReadUInt16_def WriteUInt16_def rs)
  have w32: "fst (ReadInt32 (WriteInt32 s i32)) = i32" "fst (ReadUInt32 (WriteUInt32 s u32)) = u32"
    "fst (ReadFloat (WriteFloat s f32)) = f32"
    by (simp_all add: ReadInt32_def WriteInt32_def ReadUInt32_def WriteUInt32_def
        ReadFloat_def WriteFloat_def rs)
  have w64: "fst (ReadInt64 (WriteInt64 s i64)) = i64" "fst (ReadUInt64 (WriteUInt64 s u64)) = u64"
    "fst (ReadDouble (WriteDouble s f64)) = f64"
    by (simp_all add: ReadInt64_def WriteInt64_def ReadUInt64_def WriteUInt64_def
        ReadDouble_def WriteDouble_def rs)
  note str = ReadString_WriteString [OF assms(1,2)]
  note v = ReadVector3_WriteVector3 [OF assms(1)] ReadQuaternion_WriteQuaternion [OF assms(1)]
  have wf: "m_writePos (m_payload P) \<le> length (m_buffer (m_payload P))"
    using assms(5) by (simp add: BitStream_wf_def)
  note pk = Packet_round_trip [OF assms(3,4) wf assms(1,6)]
  show ?thesis
    using b w8 w16 w32 w64 str v pk by blast
qed

theorem wire_round_trip_witness:
  "fst (ReadBool (WriteBool BitStream_empty True)) = True
       \<and> fst (ReadInt8 (WriteInt8 BitStream_empty (- 3))) = - 3
       \<and> fst (ReadUInt8 (WriteUInt8 BitStream_empty 200)) = 200
       \<and> fst (ReadInt16 (WriteInt16 BitStream_empty (- 300))) = - 300
       \<and> fst (ReadUInt16 (WriteUInt16 BitStream_empty 7777)) = 7777
       \<and> fst (ReadInt32 (WriteInt32 BitStream_empty 57)) = 57
       \<and> fst (ReadUInt32 (WriteUInt32 BitStream_empty 0x57564E45)) = 0x57564E45
       \<and> fst (ReadInt64 (WriteInt64 BitStream_empty (- 1))) = - 1
       \<and> fst (ReadUInt64 (WriteUInt64 BitStream_empty 1234567890123)) = 1234567890123
       \<and> fst (ReadFloat (WriteFloat BitStream_empty 0x3F800000)) = 0x3F800000
       \<and> fst (ReadDouble (WriteDouble BitStream_empty 0x3FF0000000000000)) = 0x3FF0000000000000
       \<and> fst (ReadString (WriteString BitStream_empty ''Health'')) = ''Health''
       \<and> fst (ReadVector3 (WriteVector3 BitStream_empty \<lparr>vec_x = 1, vec_y = 2, vec_z = 3\<rparr>))
            = \<lparr>vec_x = 1, vec_y = 2, vec_z = 3\<rparr>
       \<and> fst (ReadQuaternion (WriteQuaternion BitStream_empty
                 \<lparr>quat_w = 0x3F800000, quat_x = 0, quat_y = 0, quat_z = 0\<rparr>))
            = \<lparr>quat_w = 0x3F800000, quat_x = 0, quat_y = 0, quat_z = 0\<rparr>
       \<and> (\<exists>R rest. Packet_Deserialize Packet_new (snd (Packet_Serialize sample_packet BitStream_empty))
                      = (True, R, rest)
             \<and> sequence (m_header R) = 5
             \<and> packetType (m_header R) = ActorDestroy
             \<and> unat (payloadSize (m_header R)) = 4
             \<and> GetSize (m_payload R) = 4
             \<and> written (m_payload R) = [7, 0, 0, 0])"
proof -
  have h1: "m_readPos BitStream_empty = m_writePos BitStream_empty"
    by (simp add: BitStream_empty_def)
  have h2: "length ''Health'' < 2 ^ 32"
    by simp
  have h3: "magic (m_header sample_packet) = PACKET_MAGIC"
    by (simp add: sample_packet_def SetSequence_def Packet_of_type_def SetType_def Packet_new_def)
  have sz: "GetSize (m_payload sample_packet) = 4"
    by (simp add: sample_packet_def GetSize_def WriteUInt32_def Write_def EnsureCapacity_def
        BitStream_empty_def)
  have h4: "GetSize (m_payload sample_packet) < 2 ^ 16"
    by (simp add: sz)
  have h5: "BitStream_wf (m_payload sample_packet)"
    by (simp add: sample_packet_def BitStream_wf_def WriteUInt32_def Write_def EnsureCapacity_def
        BitStream_empty_def)
  have h6: "GetSize (m_payload Packet_new) = 0"
    by (simp add: Packet_new_def GetSize_def BitStream_empty_def)
  have hd: "sequence (m_header sample_packet) = 5" "packetType (m_header sample_packet) = ActorDestroy"
    by (simp_all add: sample_packet_def SetSequence_def Packet_of_type_def SetType_def Packet_new_def)
  have wr: "written (m_payload sample_packet) = [7, 0, 0, 0]"
    by (simp add: sample_packet_def written_def GetSize_def GetData_def WriteUInt32_def Write_def
        EnsureCapacity_def BitStream_empty_def le_bytes_numeral)
  show ?thesis
    using wire_round_trip [OF h1 h2 h3 h4 h5 h6] by (simp add: sz hd wr)
qed

text \<open>
  Claim C10 (deserialization is not atomic on error). When the stream holds a header with
  the right magic whose declared payload size exceeds the bytes that follow it,
  \<open>Packet::Deserialize\<close> returns false, the header of the packet has been overwritten with the
  parsed magic, sequence, kind and payload size, and the payload member is what it was.
\<close>

theorem Packet_Deserialize_not_atomic:
  assumes "BitStream_wf t"
    and "drop (m_readPos t) (written t) =
           le_bytes 4 PACKET_MAGIC @ le_bytes 4 sq @ le_bytes 2 ty @ le_bytes 2 n @ rest"
    and "length rest < unat n"
  shows "Packet_Deserialize p t =
           (False,
            p\<lparr>m_header := \<lparr>magic = PACKET_MAGIC, sequence = sq, packetType = ty, payloadSize = n\<rparr>\<rparr>,
            t\<lparr>m_readPos := m_readPos t + 12\<rparr>)
         \<and> m_payload (fst (snd (Packet_Deserialize p t))) = m_payload p"
proof -
  have wf: "m_writePos t \<le> length (m_buffer t)" "m_readPos t \<le> m_writePos t"
    using assms(1) by (simp_all add: BitStream_wf_def)
  have st: "stored t = written t" using wf(1) by (rule stored_written)
  have "length (drop (m_readPos t) (written t)) = 12 + length rest"
    by (simp add: assms(2))
  then have len: "m_writePos t - m_readPos t = 12 + length rest"
    using wf by (simp add: st [symmetric])
  then have l12: "m_readPos t + 12 \<le> m_writePos t" by simp
  have hd: "PacketHeader_Deserialize t =
              (PACKET_MAGIC = PACKET_MAGIC,
               \<lparr>magic = PACKET_MAGIC, sequence = sq, packetType = ty, payloadSize = n\<rparr>,
               t\<lparr>m_readPos := m_readPos t + 12\<rparr>)"
    using wf(1) l12 by (rule PacketHeader_Deserialize_stored) (simp add: st assms(2))
  have nz: "0 < n" using assms(3) by (simp add: word_neq_0_conv [symmetric] unat_gt_0 [symmetric])
  have ncr: "\<not> CanRead (t\<lparr>m_readPos := m_readPos t + 12\<rparr>) (unat n)"
    using len assms(3) by (simp add: CanRead_def)
  show ?thesis
    unfolding Packet_Deserialize_def hd using nz ncr by simp
qed

theorem Packet_Deserialize_not_atomic_witness:
  "Packet_Deserialize sample_packet
     (BitStream_of (le_bytes 4 PACKET_MAGIC @ le_bytes 4 (9 :: 32 word) @ le_bytes 2 RPCServer
        @ le_bytes 2 (8 :: 16 word) @ [1, 2, 3]))
     = (False,
        sample_packet\<lparr>m_header := \<lparr>magic = PACKET_MAGIC, sequence = 9, packetType = RPCServer,
                                   payloadSize = 8\<rparr>\<rparr>,
        (BitStream_of (le_bytes 4 PACKET_MAGIC @ le_bytes 4 (9 :: 32 word) @ le_bytes 2 RPCServer
           @ le_bytes 2 (8 :: 16 word) @ [1, 2, 3]))\<lparr>m_readPos := 12\<rparr>)
   \<and> m_header sample_packet \<noteq> \<lparr>magic = PACKET_MAGIC, sequence = 9, packetType = RPCServer, payloadSize = 8\<rparr>"
proof -
  let ?t = "BitStream_of (le_bytes 4 PACKET_MAGIC @ le_bytes 4 (9 :: 32 word) @ le_bytes 2 RPCServer
              @ le_bytes 2 (8 :: 16 word) @ [1, 2, 3])"
  have h1: "BitStream_wf ?t"
    by (simp add: BitStream_wf_def BitStream_of_def)
  have h2: "drop (m_readPos ?t) (written ?t) =
              le_bytes 4 PACKET_MAGIC @ le_bytes 4 (9 :: 32 word) @ le_bytes 2 RPCServer
                @ le_bytes 2 (8 :: 16 word) @ [1, 2, 3]"
    by (simp add: BitStream_of_def written_def GetSize_def GetData_def)
  have h3: "length [1, 2, 3 :: byte] < unat (8 :: 16 word)"
    by simp
  have ne: "m_header sample_packet \<noteq> \<lparr>magic = PACKET_MAGIC, sequence = 9, packetType = RPCServer, payloadSize = 8\<rparr>"
    by (simp add: sample_packet_def SetSequence_def Packet_of_type_def SetType_def Packet_new_def)
  show ?thesis
    using Packet_Deserialize_not_atomic [OF h1 h2 h3, of sample_packet] ne
    by (simp add: BitStream_of_def)
qed

section \<open>Properties of the driver\<close>

lemma with_connection_append_fresh:
  assumes "ptr \<notin> fst ` set cs"
  shows "map (\<lambda>(q, c). if q = ptr then (q, f c) else (q, c)) (cs @ [(ptr, c0)]) = cs @ [(ptr, f c0)]"
proof -
  have "map (\<lambda>(q, c). if q = ptr then (q, f c) else (q, c)) cs = cs"
    using assms by (induction cs) auto
  then show ?thesis by simp
qed

lemma denied_bytes:
  "(let (_, stream) = Packet_Serialize (Packet_of_type ConnectionDenied) BitStream_empty
    in take (GetSize stream) (GetData stream)) = denied_datagram"
  by (simp add: Packet_Serialize_def Packet_of_type_def SetType_def Packet_new_def
      BitStream_empty_def GetSize_def GetData_def PacketHeader_Serialize_def
      WriteUInt32_def WriteUInt16_def Write_def EnsureCapacity_def denied_datagram_def
      header_bytes_def)

lemma HandleConnectionRequest_known:
  "FindConnection d from \<noteq> None \<Longrightarrow> HandleConnectionRequest d from p = d"
  by (simp add: HandleConnectionRequest_def)

lemma HandleConnectionRequest_full:
  assumes "FindConnection d from = None" "unat (m_maxConnections d) \<le> length (m_connections d)"
  shows "HandleConnectionRequest d from p = d\<lparr>m_socket := SendTo (m_socket d) denied_datagram from\<rparr>"
  using assms denied_bytes by (simp add: HandleConnectionRequest_def split_beta Let_def)

lemma with_connection_last:
  assumes "ptr \<notin> fst ` set cs" "m_connections d = cs @ [(ptr, c0)]"
  shows "with_connection ptr f d = d\<lparr>m_connections := cs @ [(ptr, f c0)]\<rparr>"
  unfolding with_connection_def assms(2) with_connection_append_fresh [OF assms(1)] ..

lemma SendPacket_accept:
  "NetConnection_SendPacket ((NetConnection_new from)\<lparr>m_state := Connected\<rparr>)
     (Packet_of_type ConnectionAccept) True = accepted_connection from"
  by (simp add: NetConnection_SendPacket_def GetNextOutgoingSequence_def NetConnection_new_def
      accepted_connection_def SetSequence_def GetSequence_def Packet_of_type_def SetType_def
      Packet_new_def Let_def)

lemma HandleConnectionRequest_accept:
  assumes "FindConnection d from = None" "length (m_connections d) < unat (m_maxConnections d)"
    and fresh: "m_nextAddress d \<notin> fst ` set (m_connections d)"
  shows "HandleConnectionRequest d from p =
           d\<lparr>m_connections := m_connections d @ [(m_nextAddress d, accepted_connection from)],
             m_connectionList := m_connectionList d @ [m_nextAddress d],
             m_nextAddress := Suc (m_nextAddress d),
             m_calls := m_calls d @ (if m_onConnection d then [OnConnection (m_nextAddress d)] else [])\<rparr>"
proof -
  let ?ptr = "m_nextAddress d"
  let ?d1 = "d\<lparr>m_connections := m_connections d @ [(?ptr, NetConnection_new from)],
               m_connectionList := m_connectionList d @ [?ptr],
               m_nextAddress := Suc ?ptr\<rparr>"
  have c: "CreateConnection d from = (?ptr, ?d1)"
    by (simp add: CreateConnection_def Let_def)
  let ?d2 = "?d1\<lparr>m_connections := m_connections d @ [(?ptr, (NetConnection_new from)\<lparr>m_state := Connected\<rparr>)]\<rparr>"
  have w: "with_connection ?ptr (\<lambda>c. c\<lparr>m_state := Connected\<rparr>) ?d1 = ?d2"
    by (rule with_connection_last [OF fresh]) simp
  let ?d3 = "?d2\<lparr>m_connections := m_connections d @ [(?ptr, accepted_connection from)]\<rparr>"
  have s: "NetDriver_SendPacket ?d2 (Some ?ptr) (Packet_of_type ConnectionAccept) True = ?d3"
    unfolding NetDriver_SendPacket_def option.case
    by (subst with_connection_last [OF fresh, where ?c0.0 = "(NetConnection_new from)\<lparr>m_state := Connected\<rparr>"])
       (simp_all add: SendPacket_accept)
  show ?thesis
    unfolding HandleConnectionRequest_def c Let_def prod.case w s
    using assms(1,2) by (simp add: call_back_def)
qed


lemma written_BitStream_of [simp]: "written (BitStream_of b) = b"
  by (simp add: written_def BitStream_of_def GetSize_def GetData_def)

lemma stored_BitStream_of [simp]: "stored (BitStream_of b) = b"
  by (simp add: stored_def BitStream_of_def)

lemma BitStream_of_pos [simp]:
  "m_readPos (BitStream_of b) = 0" "m_writePos (BitStream_of b) = length b"
  "m_buffer (BitStream_of b) = b"
  by (simp_all add: BitStream_of_def)

lemma length_header_bytes [simp]: "length (header_bytes sq ty n) = 12"
  by (simp add: header_bytes_def)

lemma Packet_Deserialize_datagram:
  assumes "unat n \<le> length rest"
  shows "Packet_Deserialize q (BitStream_of (header_bytes sq ty n @ rest)) =
           (True,
            q\<lparr>m_header := \<lparr>magic = PACKET_MAGIC, sequence = sq, packetType = ty, payloadSize = n\<rparr>,
              m_payload := (if n = 0 then m_payload q else BitStream_of (take (unat n) rest))\<rparr>,
            (BitStream_of (header_bytes sq ty n @ rest))\<lparr>m_readPos := 12 + unat n\<rparr>)"
proof -
  let ?t = "BitStream_of (header_bytes sq ty n @ rest)"
  have hd: "PacketHeader_Deserialize ?t =
              (PACKET_MAGIC = PACKET_MAGIC,
               \<lparr>magic = PACKET_MAGIC, sequence = sq, packetType = ty, payloadSize = n\<rparr>,
               ?t\<lparr>m_readPos := m_readPos ?t + 12\<rparr>)"
    by (rule PacketHeader_Deserialize_stored [where rest = rest])
       (simp_all add: header_bytes_def)
  show ?thesis
  proof (cases "n = 0")
    case True
    then show ?thesis unfolding Packet_Deserialize_def hd by simp
  next
    case False
    then have pos: "0 < n" by (simp add: word_neq_0_conv)
    have cr: "CanRead (?t\<lparr>m_readPos := 12\<rparr>) (unat n)"
      using assms by (simp add: CanRead_def)
    have rd: "Read (?t\<lparr>m_readPos := 12\<rparr>) (unat n) =
                (Some (take (unat n) rest), ?t\<lparr>m_readPos := 12 + unat n\<rparr>)"
      using assms by (subst Read_stored) simp_all
    show ?thesis
      unfolding Packet_Deserialize_def hd using False pos cr rd by simp
  qed
qed

lemma map_of_with_connection:
  "map_of (map (\<lambda>(q, c). if q = ptr then (q, f c) else (q, c)) cs) ptr = map_option f (map_of cs ptr)"
  by (induction cs) auto

lemma the_connection_with_connection:
  "the_connection (with_connection ptr f d) ptr = map_option f (the_connection d ptr)"
  by (simp add: the_connection_def with_connection_def map_of_with_connection)

lemma the_connection_call_back [simp]:
  "the_connection (call_back b ev d) ptr = the_connection d ptr"
  by (simp add: the_connection_def call_back_def)

lemma ack_packet_props:
  "GetType (ack_packet s a) = Acknowledgement"
  "GetSequence (ack_packet s a) = s"
  "written (m_payload (ack_packet s a)) = le_bytes 4 a"
  by (simp_all add: ack_packet_def GetType_def GetSequence_def SetSequence_def Packet_Write_u32_def
      Packet_of_type_def SetType_def Packet_new_def WriteUInt32_def written_def GetSize_def
      GetData_def Write_def EnsureCapacity_def BitStream_empty_def)

lemma ReceivePacket_acks:
  assumes "GetType packet \<noteq> Acknowledgement" "GetType packet \<noteq> Heartbeat"
  shows "m_outgoingQueue (fst (ReceivePacket c packet)) =
           m_outgoingQueue c @ [ack_packet (m_outgoingSequence c) (GetSequence packet)]"
    and "m_reliableBuffer (fst (ReceivePacket c packet)) = m_reliableBuffer c"
    and "m_outgoingSequence (fst (ReceivePacket c packet)) = m_outgoingSequence c + 1"
  using assms
  by (simp_all add: ReceivePacket_def Let_def SendAcknowledgement_def NetConnection_SendPacket_def
      GetNextOutgoingSequence_def ack_packet_def)

lemma receive_datagram_dispatch:
  assumes parsed: "Packet_Deserialize Packet_new (BitStream_of buffer) = (True, packet, rest)"
    and known: "FindConnection d from = Some ptr"
    and owned: "the_connection d ptr = Some c"
    and kind: "GetType packet \<noteq> ConnectionRequest" "GetType packet \<noteq> ConnectionAccept"
      "GetType packet \<noteq> Disconnect"
  shows "the_connection (receive_datagram d from buffer) ptr = Some (fst (ReceivePacket c packet))"
  unfolding receive_datagram_def Let_def parsed prod.case using known owned kind
  by (simp add: split_beta the_connection_with_connection)



lemma receive_loop_Nil [simp]: "receive_loop k d [] = (d, [])"
  by (cases k) simp_all



lemma parse_datagram:
  assumes "unat n \<le> length rest"
  shows "Packet_Deserialize Packet_new (BitStream_of (header_bytes sq ty n @ rest)) =
           (True,
            \<lparr>m_header = \<lparr>magic = PACKET_MAGIC, sequence = sq, packetType = ty, payloadSize = n\<rparr>,
             m_payload = (if n = 0 then BitStream_empty else BitStream_of (take (unat n) rest))\<rparr>,
            (BitStream_of (header_bytes sq ty n @ rest))\<lparr>m_readPos := 12 + unat n\<rparr>)"
  unfolding Packet_Deserialize_datagram [OF assms] by (simp add: Packet_new_def)

lemma packet_types_distinct [simp]:
  "ConnectionRequest \<noteq> ConnectionAccept" "ConnectionRequest \<noteq> Disconnect"
  "ConnectionAccept \<noteq> ConnectionRequest" "ConnectionAccept \<noteq> Disconnect"
  "Disconnect \<noteq> ConnectionRequest" "Disconnect \<noteq> ConnectionAccept"
  "ActorDestroy \<noteq> ConnectionRequest" "ActorDestroy \<noteq> ConnectionAccept"
  "ActorDestroy \<noteq> Disconnect" "ActorDestroy \<noteq> Acknowledgement" "ActorDestroy \<noteq> Heartbeat"
  "ConnectionRequest \<noteq> Acknowledgement" "ConnectionAccept \<noteq> Acknowledgement"
  by (simp_all add: ConnectionRequest_def ConnectionAccept_def Disconnect_def ActorDestroy_def
      Acknowledgement_def Heartbeat_def)


text \<open>
  Claim C8 (capacity refusal keeps the state). A \<open>ConnectionRequest\<close> from a peer the driver
  already knows changes nothing. From an unknown peer, with as many connections as
  \<open>m_maxConnections\<close> or more, the only effect is a \<open>ConnectionDenied\<close> datagram handed to
  the socket for that peer: the connections are what they were. From an unknown peer
  otherwise, one connection is added, already \<open>Connected\<close>, with a \<open>ConnectionAccept\<close> of
  sequence 0 in its outgoing queue and in its reliable buffer, and the connection callback,
  when one is installed, is called with it.
\<close>

theorem capacity_refusal:
  "(FindConnection d from \<noteq> None \<longrightarrow> HandleConnectionRequest d from p = d)
   \<and> (FindConnection d from = None \<and> unat (m_maxConnections d) \<le> length (m_connections d) \<longrightarrow>
        HandleConnectionRequest d from p = d\<lparr>m_socket := SendTo (m_socket d) denied_datagram from\<rparr>
        \<and> m_connections (HandleConnectionRequest d from p) = m_connections d
        \<and> m_connectionList (HandleConnectionRequest d from p) = m_connectionList d)
   \<and> (FindConnection d from = None \<and> length (m_connections d) < unat (m_maxConnections d)
        \<and> m_nextAddress d \<notin> fst ` set (m_connections d) \<longrightarrow>
        HandleConnectionRequest d from p =
          d\<lparr>m_connections := m_connections d @ [(m_nextAddress d, accepted_connection from)],
            m_connectionList := m_connectionList d @ [m_nextAddress d],
            m_nextAddress := Suc (m_nextAddress d),
            m_calls := m_calls d @ (if m_onConnection d then [OnConnection (m_nextAddress d)] else [])\<rparr>)"
  using HandleConnectionRequest_known [of d "from" p] HandleConnectionRequest_full [of d "from" p]
    HandleConnectionRequest_accept [of d "from" p]
  by simp

lemma find_samples:
  "FindConnection (server_with_A cap) peer_A = Some 0"
  "FindConnection (server_with_A cap) peer_B = None"
  "FindConnection (server_empty cap) peer_B = None"
  by (simp_all add: FindConnection_def server_with_A_def server_empty_def accepted_connection_def
      NetConnection_new_def addr_eq_def peer_A_def peer_B_def)

theorem capacity_refusal_witness:
  "HandleConnectionRequest (server_with_A 2) peer_A (Packet_of_type ConnectionRequest) = server_with_A 2
   \<and> HandleConnectionRequest (server_with_A 1) peer_B (Packet_of_type ConnectionRequest) =
       (server_with_A 1)\<lparr>m_socket := \<lparr>sock_valid = True, sock_sent = [(peer_B, denied_datagram)]\<rparr>\<rparr>
   \<and> HandleConnectionRequest (server_with_A 2) peer_B (Packet_of_type ConnectionRequest) =
       (server_with_A 2)
         \<lparr>m_connections := [(0, accepted_connection peer_A), (1, accepted_connection peer_B)],
          m_connectionList := [0, 1], m_nextAddress := 2,
          m_calls := [OnConnection 0, OnConnection 1]\<rparr>"
proof -
  have k: "FindConnection (server_with_A 2) peer_A \<noteq> None"
    by (simp add: find_samples)
  have f: "FindConnection (server_with_A 1) peer_B = None
           \<and> unat (m_maxConnections (server_with_A 1)) \<le> length (m_connections (server_with_A 1))"
    by (simp add: find_samples) (simp add: server_with_A_def server_empty_def)
  have a: "FindConnection (server_with_A 2) peer_B = None
           \<and> length (m_connections (server_with_A 2)) < unat (m_maxConnections (server_with_A 2))
           \<and> m_nextAddress (server_with_A 2) \<notin> fst ` set (m_connections (server_with_A 2))"
    by (simp add: find_samples) (simp add: server_with_A_def server_empty_def)
  show ?thesis
    using capacity_refusal [of "server_with_A 2" peer_A "Packet_of_type ConnectionRequest"] k
      capacity_refusal [of "server_with_A 1" peer_B "Packet_of_type ConnectionRequest"] f
      capacity_refusal [of "server_with_A 2" peer_B "Packet_of_type ConnectionRequest"] a
    by (simp add: server_with_A_def server_empty_def SendTo_def peer_B_def)
qed



lemma receive_datagram_disconnect:
  assumes parsed: "Packet_Deserialize Packet_new (BitStream_of buffer) = (True, packet, rest)"
    and known: "FindConnection d from = Some ptr"
    and kind: "GetType packet = Disconnect"
  shows "receive_datagram d from buffer =
           RemoveConnection (call_back (m_onDisconnection d) (OnDisconnection ptr) d) ptr"
  unfolding receive_datagram_def Let_def parsed prod.case using known kind
  by (simp add: HandleDisconnect_def)

lemma map_of_filter_same: "map_of (filter (\<lambda>(q, c). q \<noteq> ptr) cs) ptr = None"
  by (induction cs) auto

lemma RemoveConnection_connections:
  "m_connections (RemoveConnection (call_back b ev d) ptr) = filter (\<lambda>(q, c). q \<noteq> ptr) (m_connections d)"
  by (simp add: RemoveConnection_def call_back_def)

text \<open>
  Claim C2, as amended. A datagram from a peer the driver has a connection for, that
  deserializes to a packet of a kind other than \<open>ConnectionRequest\<close>, \<open>ConnectionAccept\<close>,
  \<open>Disconnect\<close>, \<open>Acknowledgement\<close> and \<open>Heartbeat\<close>, makes that connection append to its outgoing
  queue one \<open>Acknowledgement\<close> packet whose payload is the sequence number of the packet
  received, four bytes; the acknowledgement is not kept in the reliable buffer. A
  \<open>Disconnect\<close> from such a peer is not acknowledged: the connection is removed and the
  other connections are left as they were.
\<close>

theorem acknowledgement_enqueued:
  assumes "Packet_Deserialize Packet_new (BitStream_of buffer) = (True, packet, rest)"
    and "FindConnection d from = Some ptr"
    and "the_connection d ptr = Some c"
  shows "(GetType packet \<notin> {ConnectionRequest, ConnectionAccept, Disconnect, Acknowledgement, Heartbeat} \<longrightarrow>
           (\<exists>c'. the_connection (receive_datagram d from buffer) ptr = Some c'
              \<and> m_outgoingQueue c' =
                  m_outgoingQueue c @ [ack_packet (m_outgoingSequence c) (GetSequence packet)]
              \<and> m_reliableBuffer c' = m_reliableBuffer c
              \<and> GetType (ack_packet (m_outgoingSequence c) (GetSequence packet)) = Acknowledgement
              \<and> written (m_payload (ack_packet (m_outgoingSequence c) (GetSequence packet))) =
                  le_bytes 4 (GetSequence packet)))
       \<and> (GetType packet = Disconnect \<longrightarrow>
           the_connection (receive_datagram d from buffer) ptr = None
           \<and> m_connections (receive_datagram d from buffer) =
               filter (\<lambda>(q, c). q \<noteq> ptr) (m_connections d))"
proof (intro conjI impI)
  assume "GetType packet \<notin> {ConnectionRequest, ConnectionAccept, Disconnect, Acknowledgement, Heartbeat}"
  then have k: "GetType packet \<noteq> ConnectionRequest" "GetType packet \<noteq> ConnectionAccept"
    "GetType packet \<noteq> Disconnect" "GetType packet \<noteq> Acknowledgement" "GetType packet \<noteq> Heartbeat"
    by auto
  have "the_connection (receive_datagram d from buffer) ptr = Some (fst (ReceivePacket c packet))"
    using assms(1-3) k(1-3) by (rule receive_datagram_dispatch)
  then show "\<exists>c'. the_connection (receive_datagram d from buffer) ptr = Some c'
              \<and> m_outgoingQueue c' =
                  m_outgoingQueue c @ [ack_packet (m_outgoingSequence c) (GetSequence packet)]
              \<and> m_reliableBuffer c' = m_reliableBuffer c
              \<and> GetType (ack_packet (m_outgoingSequence c) (GetSequence packet)) = Acknowledgement
              \<and> written (m_payload (ack_packet (m_outgoingSequence c) (GetSequence packet))) =
                  le_bytes 4 (GetSequence packet)"
    using ReceivePacket_acks [OF k(4,5), of c] ack_packet_props by simp
next
  assume "GetType packet = Disconnect"
  with assms(1,2) have e: "receive_datagram d from buffer =
      RemoveConnection (call_back (m_onDisconnection d) (OnDisconnection ptr) d) ptr"
    by (rule receive_datagram_disconnect)
  show "m_connections (receive_datagram d from buffer) = filter (\<lambda>(q, c). q \<noteq> ptr) (m_connections d)"
    by (simp add: e RemoveConnection_connections)
  then show "the_connection (receive_datagram d from buffer) ptr = None"
    by (simp add: the_connection_def map_of_filter_same)
qed

lemma parse_destroy:
  "Packet_Deserialize Packet_new (BitStream_of (header_bytes 5 ActorDestroy 4 @ le_bytes 4 (7 :: 32 word))) =
     (True,
      \<lparr>m_header = \<lparr>magic = PACKET_MAGIC, sequence = 5, packetType = ActorDestroy, payloadSize = 4\<rparr>,
       m_payload = BitStream_of (le_bytes 4 (7 :: 32 word))\<rparr>,
      (BitStream_of (header_bytes 5 ActorDestroy 4 @ le_bytes 4 (7 :: 32 word)))\<lparr>m_readPos := 16\<rparr>)"
  by (subst parse_datagram) simp_all

lemma parse_empty:
  "Packet_Deserialize Packet_new (BitStream_of (header_bytes sq ty 0)) =
     (True,
      \<lparr>m_header = \<lparr>magic = PACKET_MAGIC, sequence = sq, packetType = ty, payloadSize = 0\<rparr>,
       m_payload = BitStream_empty\<rparr>,
      (BitStream_of (header_bytes sq ty 0))\<lparr>m_readPos := 12\<rparr>)"
  using parse_datagram [of 0 "[]" sq ty] by simp

theorem acknowledgement_enqueued_witness:
  "(\<exists>c'. the_connection
          (receive_datagram (server_with_A 2) peer_A (header_bytes 5 ActorDestroy 4 @ le_bytes 4 (7 :: 32 word)))
          0 = Some c'
      \<and> m_outgoingQueue c' = [Packet_of_type ConnectionAccept, ack_packet 1 5]
      \<and> m_reliableBuffer c' = [(0, Packet_of_type ConnectionAccept)]
      \<and> GetType (ack_packet 1 5) = Acknowledgement
      \<and> written (m_payload (ack_packet 1 5)) = [5, 0, 0, 0])
   \<and> the_connection (receive_datagram (server_with_A 2) peer_A (header_bytes 6 Disconnect 0)) 0 = None
   \<and> m_connections (receive_datagram (server_with_A 2) peer_A (header_bytes 6 Disconnect 0)) = []"
proof -
  let ?p = "\<lparr>m_header = \<lparr>magic = PACKET_MAGIC, sequence = 5, packetType = ActorDestroy, payloadSize = 4\<rparr>,
            m_payload = BitStream_of (le_bytes 4 (7 :: 32 word))\<rparr>"
  let ?q = "\<lparr>m_header = \<lparr>magic = PACKET_MAGIC, sequence = 6, packetType = Disconnect, payloadSize = 0\<rparr>,
            m_payload = BitStream_empty\<rparr>"
  have h2: "FindConnection (server_with_A 2) peer_A = Some 0"
    by (rule find_samples)
  have h3: "the_connection (server_with_A 2) 0 = Some (accepted_connection peer_A)"
    by (simp add: the_connection_def server_with_A_def)
  have h4: "GetType ?p \<notin> {ConnectionRequest, ConnectionAccept, Disconnect, Acknowledgement, Heartbeat}"
    by (simp add: GetType_def)
  have h5: "GetType ?q = Disconnect"
    by (simp add: GetType_def)
  have cs: "m_connections (server_with_A 2) = [(0, accepted_connection peer_A)]"
    by (simp add: server_with_A_def)
  show ?thesis
    using acknowledgement_enqueued [OF parse_destroy h2 h3] h4
      acknowledgement_enqueued [OF parse_empty h2 h3] h5
    by (simp add: cs) (simp add: accepted_connection_def NetConnection_new_def GetSequence_def le_bytes_numeral)
qed

text \<open>
  Claim C2 as stated fails: the driver takes \<open>Disconnect\<close>, \<open>ConnectionRequest\<close> and
  \<open>ConnectionAccept\<close> out of the stream before any connection sees them. After a \<open>Disconnect\<close>
  from a connected peer, after a \<open>ConnectionRequest\<close> from a new peer, and after the
  \<open>ConnectionAccept\<close> on a client, no acknowledgement waits in any outgoing queue.
\<close>

theorem handshake_packets_not_acknowledged:
  "acks_queued (receive_datagram (server_with_A 2) peer_A (header_bytes 3 Disconnect 0)) = []
   \<and> acks_queued (receive_datagram (server_empty 2) peer_B (header_bytes 0 ConnectionRequest 0)) = []
   \<and> acks_queued (receive_datagram client_connecting peer_A (header_bytes 1 ConnectionAccept 0)) = []"
proof -
  have "receive_datagram (server_with_A 2) peer_A (header_bytes 3 Disconnect 0) =
          HandleDisconnect (server_with_A 2) 0
            \<lparr>m_header = \<lparr>magic = PACKET_MAGIC, sequence = 3, packetType = Disconnect, payloadSize = 0\<rparr>,
             m_payload = BitStream_empty\<rparr>"
    unfolding receive_datagram_def Let_def parse_empty prod.case
    by (simp add: GetType_def find_samples)
  then have d: "acks_queued (receive_datagram (server_with_A 2) peer_A (header_bytes 3 Disconnect 0)) = []"
    by (simp add: HandleDisconnect_def RemoveConnection_def call_back_def
        acks_queued_def server_with_A_def server_empty_def)
  have fresh: "FindConnection (server_empty 2) peer_B = None
      \<and> length (m_connections (server_empty 2)) < unat (m_maxConnections (server_empty 2))
      \<and> m_nextAddress (server_empty 2) \<notin> fst ` set (m_connections (server_empty 2))"
    by (simp add: find_samples) (simp add: server_empty_def)
  have r: "acks_queued (receive_datagram (server_empty 2) peer_B (header_bytes 0 ConnectionRequest 0)) = []"
    unfolding receive_datagram_def Let_def parse_empty prod.case
    using fresh
    by (simp add: GetType_def IsServer_def HandleConnectionRequest_accept acks_queued_def
        accepted_connection_def GetType_def Packet_of_type_def SetType_def Packet_new_def)
       (simp add: server_empty_def)
  have a: "acks_queued (receive_datagram client_connecting peer_A (header_bytes 1 ConnectionAccept 0)) = []"
    unfolding receive_datagram_def Let_def parse_empty prod.case
    by (simp add: GetType_def client_connecting_def IsClient_def with_connection_def call_back_def
        acks_queued_def NetConnection_SendPacket_def GetNextOutgoingSequence_def Let_def
        SetSequence_def Packet_of_type_def SetType_def Packet_new_def NetConnection_new_def)
  show ?thesis using d r a by simp
qed

lemma header_bytes_ne [simp]: "header_bytes sq ty n \<noteq> []"
  by (metis length_header_bytes list.size(3) zero_neq_numeral)







section \<open>Reading what was written, at any position\<close>

lemma ReadScalar_at:
  assumes wf: "m_writePos t \<le> length (m_buffer t)"
    and bytes: "drop (m_readPos t) (stored t) = le_bytes k v @ rest"
    and k: "LENGTH('a::len) \<le> 8 * k"
  shows "ReadScalar k t = (v :: 'a word, t\<lparr>m_readPos := m_readPos t + k\<rparr>)"
proof -
  have "length (drop (m_readPos t) (stored t)) = k + length rest"
    by (simp add: bytes)
  moreover have "0 < k" using k by (cases k) simp_all
  ultimately have "m_readPos t + k \<le> m_writePos t" by simp
  with wf show ?thesis
    by (subst ReadScalar_stored) (simp_all add: bytes le_word_le_bytes [OF k])
qed

lemma ReadString_at:
  assumes wf: "m_writePos t \<le> length (m_buffer t)"
    and bytes: "drop (m_readPos t) (stored t) =
                  le_bytes 4 (word_of_nat (length n) :: 32 word) @ map byte_of_char n @ rest"
    and n: "length n < 2 ^ 32"
  shows "ReadString t = (n, t\<lparr>m_readPos := m_readPos t + 4 + length n\<rparr>)"
proof -
  let ?len = "word_of_nat (length n) :: 32 word"
  let ?t1 = "t\<lparr>m_readPos := m_readPos t + 4\<rparr>"
  have ul: "unat ?len = length n" using n by (simp add: unat_of_nat take_bit_nat_eq_self)
  have r1: "ReadUInt32 t = (?len, ?t1)"
    unfolding ReadUInt32_def using wf bytes by (rule ReadScalar_at) simp
  have "length (drop (m_readPos t) (stored t)) = 4 + length n + length rest"
    by (simp add: bytes)
  then have fit: "m_readPos t + 4 + length n \<le> m_writePos t" by simp
  show ?thesis
  proof (cases "n = []")
    case True
    then show ?thesis by (simp add: ReadString_def r1)
  next
    case False
    then have ne: "?len \<noteq> 0" using ul by (metis length_0_conv unat_0)
    have cr: "CanRead ?t1 (length n)" using fit by (simp add: CanRead_def)
    have d: "drop (m_readPos t + 4) (stored t) = map byte_of_char n @ rest"
      using bytes by (metis (no_types, lifting) add.commute append_eq_conv_conj drop_drop length_le_bytes)
    have rd: "Read ?t1 (length n) = (Some (map byte_of_char n), ?t1\<lparr>m_readPos := m_readPos t + 4 + length n\<rparr>)"
      using wf fit by (subst Read_stored) (simp_all add: d)
    show ?thesis
      unfolding ReadString_def r1 using ne cr rd by (simp add: ul comp_def)
  qed
qed

lemma stored_WriteString:
  assumes "length n < 2 ^ 32"
  shows "stored (WriteString s n) =
           stored s @ le_bytes 4 (word_of_nat (length n) :: 32 word) @ map byte_of_char n"
proof -
  have ul: "unat (word_of_nat (length n) :: 32 word) = length n"
    using assms by (simp add: unat_of_nat take_bit_nat_eq_self)
  show ?thesis
  proof (cases "n = []")
    case True
    then show ?thesis by (simp add: WriteString_def WriteUInt32_def)
  next
    case False
    then have "(word_of_nat (length n) :: 32 word) \<noteq> 0" using ul by (metis length_0_conv unat_0)
    then show ?thesis
      by (simp add: WriteString_def WriteUInt32_def Let_def ul word_neq_0_conv [symmetric])
  qed
qed

lemma WriteString_wf:
  "m_writePos s \<le> length (m_buffer s) \<Longrightarrow>
   m_writePos (WriteString s n) \<le> length (m_buffer (WriteString s n))"
  by (simp add: WriteString_def WriteUInt32_def Let_def)

lemma WriteString_readPos [simp]: "m_readPos (WriteString s n) = m_readPos s"
  by (simp add: WriteString_def WriteUInt32_def Let_def)

lemma BitStream_empty_simps [simp]:
  "m_readPos BitStream_empty = 0" "m_writePos BitStream_empty = 0" "m_buffer BitStream_empty = []"
  "stored BitStream_empty = []"
  by (simp_all add: BitStream_empty_def stored_def)

section \<open>Properties of the RPC dispatch\<close>

lemma ProcessRPC_Some_iff:
  "fst (ProcessRPC w reg packet) = Some (h, a, params) \<longleftrightarrow>
     (\<exists>meta. GetActorByNetId w (rpc_actor_id packet) = Some a
        \<and> map_of reg (rpc_function_name packet) = Some meta
        \<and> GetType packet = expectedPacketType (rpc_type meta)
        \<and> h = rpc_handler meta
        \<and> params = (let s = snd (ReadString (snd (ReadUInt32 (m_payload packet))))
                    in BitStream_of (take (GetBytesRemaining s) (drop (GetReadPos s) (GetData s)))))"
  by (auto simp add: ProcessRPC_def rpc_actor_id_def rpc_function_name_def Let_def split_beta
      split: option.splits)

lemma ProcessRPC_None:
  assumes "map_of reg (rpc_function_name packet) = Some meta"
    and "GetType packet \<noteq> expectedPacketType (rpc_type meta)"
  shows "fst (ProcessRPC w reg packet) = None"
  using assms
  by (auto simp add: ProcessRPC_def rpc_actor_id_def rpc_function_name_def Let_def split_beta
      split: option.splits)

text \<open>
  The three tests of \<open>ProcessRPC\<close>. It calls a handler only if the actor id read from
  the packet is in the map of the world, the function name read is registered, and the kind
  of the packet is the one that goes with the declared kind of the handler; and it does
  call the handler when the three hold. When the kinds differ no handler is called: in
  particular for a packet of kind \<open>RPCServer\<close> that names a handler declared \<open>Client\<close> or
  \<open>Multicast\<close>. Whether the actor the map gives is still owned by the world is not tested.
\<close>

lemma ProcessRPC_guards:
  "(fst (ProcessRPC w reg packet) = Some (h, a, params) \<longrightarrow>
      (\<exists>meta. GetActorByNetId w (rpc_actor_id packet) = Some a
         \<and> map_of reg (rpc_function_name packet) = Some meta
         \<and> rpc_handler meta = h
         \<and> GetType packet = expectedPacketType (rpc_type meta)))
   \<and> (GetActorByNetId w (rpc_actor_id packet) = Some a
       \<and> map_of reg (rpc_function_name packet) = Some meta
       \<and> GetType packet = expectedPacketType (rpc_type meta) \<longrightarrow>
       (\<exists>ps. fst (ProcessRPC w reg packet) = Some (rpc_handler meta, a, ps)))
   \<and> (map_of reg (rpc_function_name packet) = Some meta
       \<and> GetType packet \<noteq> expectedPacketType (rpc_type meta) \<longrightarrow>
       fst (ProcessRPC w reg packet) = None)
   \<and> (map_of reg (rpc_function_name packet) = Some meta
       \<and> GetType packet = RPCServer
       \<and> (rpc_type meta = RPCType_Client \<or> rpc_type meta = RPCType_Multicast) \<longrightarrow>
       fst (ProcessRPC w reg packet) = None)"
proof (intro conjI impI)
  assume "fst (ProcessRPC w reg packet) = Some (h, a, params)"
  then show "\<exists>meta. GetActorByNetId w (rpc_actor_id packet) = Some a
         \<and> map_of reg (rpc_function_name packet) = Some meta
         \<and> rpc_handler meta = h
         \<and> GetType packet = expectedPacketType (rpc_type meta)"
    unfolding ProcessRPC_Some_iff by blast
next
  assume "GetActorByNetId w (rpc_actor_id packet) = Some a
       \<and> map_of reg (rpc_function_name packet) = Some meta
       \<and> GetType packet = expectedPacketType (rpc_type meta)"
  then show "\<exists>ps. fst (ProcessRPC w reg packet) = Some (rpc_handler meta, a, ps)"
    unfolding ProcessRPC_Some_iff by blast
next
  assume "map_of reg (rpc_function_name packet) = Some meta
       \<and> GetType packet \<noteq> expectedPacketType (rpc_type meta)"
  then show "fst (ProcessRPC w reg packet) = None"
    using ProcessRPC_None by blast
next
  assume a: "map_of reg (rpc_function_name packet) = Some meta
       \<and> GetType packet = RPCServer
       \<and> (rpc_type meta = RPCType_Client \<or> rpc_type meta = RPCType_Multicast)"
  then have "GetType packet \<noteq> expectedPacketType (rpc_type meta)"
    by (auto simp add: expectedPacketType_def RPCServer_def RPCClient_def RPCMulticast_def)
  with a show "fst (ProcessRPC w reg packet) = None"
    using ProcessRPC_None by blast
qed

lemma rpc_packet_parsed:
  assumes "length n < 2 ^ 32"
  shows "rpc_actor_id (rpc_packet t netId n) = netId"
    and "rpc_function_name (rpc_packet t netId n) = n"
    and "GetType (rpc_packet t netId n) = t"
    and "(let s = snd (ReadString (snd (ReadUInt32 (m_payload (rpc_packet t netId n)))))
          in BitStream_of (take (GetBytesRemaining s) (drop (GetReadPos s) (GetData s)))) = BitStream_of []"
proof -
  let ?s = "WriteString (Write BitStream_empty (le_bytes 4 netId)) n"
  have wf: "m_writePos ?s \<le> length (m_buffer ?s)"
    by (rule WriteString_wf) simp
  have st: "stored ?s = le_bytes 4 netId @ le_bytes 4 (word_of_nat (length n) :: 32 word) @ map byte_of_char n"
    by (simp add: stored_WriteString [OF assms])
  have r1: "ReadUInt32 ?s = (netId, ?s\<lparr>m_readPos := 4\<rparr>)"
    unfolding ReadUInt32_def
    using ReadScalar_at [OF wf, of 4 netId "le_bytes 4 (word_of_nat (length n) :: 32 word) @ map byte_of_char n"]
    by (simp add: st)
  have wf1: "m_writePos (?s\<lparr>m_readPos := 4\<rparr>) \<le> length (m_buffer (?s\<lparr>m_readPos := 4\<rparr>))"
    using wf by simp
  have r2: "ReadString (?s\<lparr>m_readPos := 4\<rparr>) = (n, ?s\<lparr>m_readPos := 4 + 4 + length n\<rparr>)"
    using ReadString_at [OF wf1, of n "[]"] assms by (simp add: st)
  show "GetType (rpc_packet t netId n) = t"
    by (simp add: rpc_packet_def GetType_def Packet_of_type_def SetType_def Packet_new_def)
  show "rpc_actor_id (rpc_packet t netId n) = netId"
    by (simp add: rpc_actor_id_def rpc_packet_def WriteUInt32_def r1)
  show "rpc_function_name (rpc_packet t netId n) = n"
    by (simp add: rpc_function_name_def rpc_packet_def WriteUInt32_def r1 r2)
  have "m_writePos ?s = 4 + 4 + length n"
    using arg_cong [OF st, of length] by simp
  then show "(let s = snd (ReadString (snd (ReadUInt32 (m_payload (rpc_packet t netId n)))))
          in BitStream_of (take (GetBytesRemaining s) (drop (GetReadPos s) (GetData s)))) = BitStream_of []"
    by (simp add: rpc_packet_def WriteUInt32_def r1 r2 GetBytesRemaining_def)
qed

lemma sample_lookups:
  "GetActorByNetId world_one_actor 1 = Some 0"
  "map_of sample_registry ''Fire'' = Some \<lparr>rpc_name = ''Fire'', rpc_type = RPCType_Server, rpc_handler = 0\<rparr>"
  "map_of sample_registry ''Notify'' = Some \<lparr>rpc_name = ''Notify'', rpc_type = RPCType_Client, rpc_handler = 1\<rparr>"
  by (simp_all add: GetActorByNetId_def world_one_actor_def SpawnActor_def GenerateNetId_def
      World_new_def Let_def sample_registry_def RegisterRPC_def)

lemma ProcessRPC_guards_sample:
  "fst (ProcessRPC world_one_actor sample_registry (rpc_packet RPCServer 1 ''Fire'')) = Some (0, 0, BitStream_of [])
   \<and> (\<exists>meta. GetActorByNetId world_one_actor (rpc_actor_id (rpc_packet RPCServer 1 ''Fire'')) = Some 0
         \<and> map_of sample_registry (rpc_function_name (rpc_packet RPCServer 1 ''Fire'')) = Some meta
         \<and> rpc_handler meta = 0
         \<and> GetType (rpc_packet RPCServer 1 ''Fire'') = expectedPacketType (rpc_type meta))
   \<and> fst (ProcessRPC world_one_actor sample_registry (rpc_packet RPCClient 1 ''Fire'')) = None
   \<and> fst (ProcessRPC world_one_actor sample_registry (rpc_packet RPCServer 1 ''Notify'')) = None"
proof -
  let ?fire = "\<lparr>rpc_name = ''Fire'', rpc_type = RPCType_Server, rpc_handler = 0 :: nat\<rparr>"
  let ?notify = "\<lparr>rpc_name = ''Notify'', rpc_type = RPCType_Client, rpc_handler = 1 :: nat\<rparr>"
  have p1: "GetActorByNetId world_one_actor (rpc_actor_id (rpc_packet RPCServer 1 ''Fire'')) = Some 0
       \<and> map_of sample_registry (rpc_function_name (rpc_packet RPCServer 1 ''Fire'')) = Some ?fire
       \<and> GetType (rpc_packet RPCServer 1 ''Fire'') = expectedPacketType (rpc_type ?fire)"
    by (simp add: rpc_packet_parsed sample_lookups expectedPacketType_def)
  have p2: "map_of sample_registry (rpc_function_name (rpc_packet RPCClient 1 ''Fire'')) = Some ?fire
       \<and> GetType (rpc_packet RPCClient 1 ''Fire'') \<noteq> expectedPacketType (rpc_type ?fire)"
    by (simp add: rpc_packet_parsed sample_lookups expectedPacketType_def RPCClient_def RPCServer_def)
  have p3: "map_of sample_registry (rpc_function_name (rpc_packet RPCServer 1 ''Notify'')) = Some ?notify
       \<and> GetType (rpc_packet RPCServer 1 ''Notify'') = RPCServer
       \<and> (rpc_type ?notify = RPCType_Client \<or> rpc_type ?notify = RPCType_Multicast)"
    by (simp add: rpc_packet_parsed sample_lookups)
  have p0: "fst (ProcessRPC world_one_actor sample_registry (rpc_packet RPCServer 1 ''Fire'')) =
              Some (0, 0, BitStream_of [])"
    unfolding ProcessRPC_Some_iff using p1 rpc_packet_parsed(4) [of "''Fire''" RPCServer 1]
    by (intro exI [of _ ?fire]) simp
  show ?thesis
    using ProcessRPC_guards [of world_one_actor sample_registry "rpc_packet RPCServer 1 ''Fire''" 0 0 "BitStream_of []" ?fire] p0
      ProcessRPC_guards [of world_one_actor sample_registry "rpc_packet RPCClient 1 ''Fire''" _ _ _ ?fire] p2
      ProcessRPC_guards [of world_one_actor sample_registry "rpc_packet RPCServer 1 ''Notify''" _ _ _ ?notify] p3
    by simp
qed


section \<open>Properties of the world\<close>

lemma DestroyActor_fields [simp]:
  "m_actors (DestroyActor w p) = m_actors w"
  "m_actorList (DestroyActor w p) = m_actorList w"
  "m_actorsByNetId (DestroyActor w p) = m_actorsByNetId w"
  "w_calls (DestroyActor w p) = w_calls w"
  by (simp_all add: DestroyActor_def split: option.splits)

lemma DestroyActorById_fields [simp]:
  "m_actors (DestroyActorById w i) = m_actors w"
  "m_actorList (DestroyActorById w i) = m_actorList w"
  "m_actorsByNetId (DestroyActorById w i) = m_actorsByNetId w"
  "w_calls (DestroyActorById w i) = w_calls w"
  by (simp_all add: DestroyActorById_def split: option.splits)

lemma DestroyActor_pending:
  "m_pendingDestroy (DestroyActor w (Some a)) =
     (if a \<in> set (m_pendingDestroy w) then m_pendingDestroy w else m_pendingDestroy w @ [a])"
  by (simp add: DestroyActor_def)

lemma DestroyActor_distinct:
  "distinct (m_pendingDestroy w) \<Longrightarrow> distinct (m_pendingDestroy (DestroyActor w p))"
  by (cases p) (simp_all add: DestroyActor_def)

lemma DestroyActorById_distinct:
  "distinct (m_pendingDestroy w) \<Longrightarrow> distinct (m_pendingDestroy (DestroyActorById w i))"
  by (simp add: DestroyActorById_def DestroyActor_distinct split: option.splits)

lemma DestroyActor_mono:
  "set (m_pendingDestroy w) \<subseteq> set (m_pendingDestroy (DestroyActor w p))"
  by (cases p) (auto simp add: DestroyActor_def)

lemma DestroyActorById_mono:
  "set (m_pendingDestroy w) \<subseteq> set (m_pendingDestroy (DestroyActorById w i))"
  using DestroyActor_mono by (simp add: DestroyActorById_def split: option.splits)

lemma serve_fields [simp]:
  "m_actors (serve w rs) = m_actors w"
  "m_actorList (serve w rs) = m_actorList w"
  "m_actorsByNetId (serve w rs) = m_actorsByNetId w"
  "w_calls (serve w rs) = w_calls w"
  by (induction w rs rule: serve.induct) simp_all

lemma serve_distinct:
  "distinct (m_pendingDestroy w) \<Longrightarrow> distinct (m_pendingDestroy (serve w rs))"
  by (induction w rs rule: serve.induct) (simp_all add: DestroyActor_distinct DestroyActorById_distinct)

lemma serve_mono: "set (m_pendingDestroy w) \<subseteq> set (m_pendingDestroy (serve w rs))"
proof (induction w rs rule: serve.induct)
  case (1 w)
  then show ?case by simp
next
  case (2 w a rs)
  then show ?case using DestroyActor_mono [of w "Some a"] by auto
next
  case (3 w netId rs)
  then show ?case using DestroyActorById_mono [of w netId] by auto
qed

lemma serve_requested:
  "RequestDestroy a \<in> set rs \<Longrightarrow> a \<in> set (m_pendingDestroy (serve w rs))"
proof (induction w rs rule: serve.induct)
  case (1 w)
  then show ?case by simp
next
  case (2 w b rs)
  show ?case
  proof (cases "a = b")
    case True
    have "b \<in> set (m_pendingDestroy (DestroyActor w (Some b)))"
      by (simp add: DestroyActor_def)
    then show ?thesis using True serve_mono by fastforce
  next
    case False
    then show ?thesis using 2 by simp
  qed
next
  case (3 w netId rs)
  then show ?case by simp
qed

lemma tick_actors_fields [simp]:
  "m_actors (tick_actors hook dt as w) = m_actors w"
  "m_actorList (tick_actors hook dt as w) = m_actorList w"
  "m_actorsByNetId (tick_actors hook dt as w) = m_actorsByNetId w"
  by (induction as arbitrary: w) simp_all

lemma tick_actors_calls:
  "w_calls (tick_actors hook dt as w) = w_calls w @ map TickCall as"
  by (induction as arbitrary: w) simp_all

lemma tick_actors_distinct:
  "distinct (m_pendingDestroy w) \<Longrightarrow> distinct (m_pendingDestroy (tick_actors hook dt as w))"
  by (induction as arbitrary: w) (simp_all add: serve_distinct)

lemma tick_actors_mono:
  "set (m_pendingDestroy w) \<subseteq> set (m_pendingDestroy (tick_actors hook dt as w))"
proof (induction as arbitrary: w)
  case Nil
  then show ?case by simp
next
  case (Cons a as)
  have "set (m_pendingDestroy w) \<subseteq>
          set (m_pendingDestroy (serve (w\<lparr>w_calls := w_calls w @ [TickCall a]\<rparr>) (hook a dt w)))"
    using serve_mono [of "w\<lparr>w_calls := w_calls w @ [TickCall a]\<rparr>"] by simp
  then show ?case using Cons by fastforce
qed

lemma tick_actors_append:
  "tick_actors hook dt (as @ bs) w = tick_actors hook dt bs (tick_actors hook dt as w)"
  by (induction as arbitrary: w) simp_all

lemma destroy_pending_result:
  assumes "destroy_pending as w = Some w'"
  shows "w_calls w' = w_calls w @ map OnDestroy as"
    and "m_actorList w' = filter (\<lambda>a. a \<notin> set as) (m_actorList w)"
    and "m_actors w' = filter (\<lambda>(q, _). q \<notin> set as) (m_actors w)"
    and "m_pendingDestroy w' = m_pendingDestroy w"
    and "m_nextNetId w' = m_nextNetId w"
  using assms
proof (induction as arbitrary: w)
  case Nil
  {
    case 1 then show ?case by simp
  next
    case 2 then show ?case by simp
  next
    case 3 then show ?case by simp
  next
    case 4 then show ?case by simp
  next
    case 5 then show ?case by simp
  }
next
  case (Cons a as)
  {
    case 1
    then obtain actor where "the_actor w a = Some actor" by (auto split: option.splits)
    with 1 Cons(1) show ?case by (auto split: option.splits)
  next
    case 2
    then obtain actor where "the_actor w a = Some actor" by (auto split: option.splits)
    with 2 Cons(2) show ?case by (auto split: option.splits simp add: removeAll_filter_not_eq intro: filter_cong)
  next
    case 3
    then obtain actor where "the_actor w a = Some actor" by (auto split: option.splits)
    with 3 Cons(3) show ?case by (auto split: option.splits intro: filter_cong)
  next
    case 4
    then obtain actor where "the_actor w a = Some actor" by (auto split: option.splits)
    with 4 Cons(4) show ?case by (auto split: option.splits)
  next
    case 5
    then obtain actor where "the_actor w a = Some actor" by (auto split: option.splits)
    with 5 Cons(5) show ?case by (auto split: option.splits)
  }
qed


lemma map_of_filter_other:
  "a \<noteq> b \<Longrightarrow> map_of (filter (\<lambda>(q, _). q \<noteq> b) xs) a = map_of xs a"
  by (induction xs) auto

lemma map_of_delete_same [simp]: "map_of (AList.delete k al) k = None"
  by (simp add: delete_conv')

lemma destroy_pending_idmap_mono:
  "destroy_pending as w = Some w' \<Longrightarrow> map_of (m_actorsByNetId w) k = None \<Longrightarrow>
   map_of (m_actorsByNetId w') k = None"
proof (induction as arbitrary: w)
  case Nil
  then show ?case by simp
next
  case (Cons a as)
  from Cons.prems(1) obtain actor where ac: "the_actor w a = Some actor"
    by (auto split: option.splits)
  let ?w1 = "w\<lparr>w_calls := w_calls w @ [OnDestroy a],
               m_actorsByNetId := AList.delete (m_netId actor) (m_actorsByNetId w),
               m_actorList := removeAll a (m_actorList w),
               m_actors := filter (\<lambda>(q, _). q \<noteq> a) (m_actors w)\<rparr>"
  have r: "destroy_pending as ?w1 = Some w'" using Cons.prems(1) ac by simp
  have "map_of (m_actorsByNetId ?w1) k = None"
    using Cons.prems(2) by (simp add: delete_conv')
  with r show ?case by (rule Cons.IH)
qed

lemma destroy_pending_idmap_sub:
  "destroy_pending as w = Some w' \<Longrightarrow> map_of (m_actorsByNetId w') k = Some p \<Longrightarrow>
   map_of (m_actorsByNetId w) k = Some p"
proof (induction as arbitrary: w)
  case Nil
  then show ?case by simp
next
  case (Cons a as)
  from Cons.prems(1) obtain actor where ac: "the_actor w a = Some actor"
    by (auto split: option.splits)
  let ?w1 = "w\<lparr>w_calls := w_calls w @ [OnDestroy a],
               m_actorsByNetId := AList.delete (m_netId actor) (m_actorsByNetId w),
               m_actorList := removeAll a (m_actorList w),
               m_actors := filter (\<lambda>(q, _). q \<noteq> a) (m_actors w)\<rparr>"
  have r: "destroy_pending as ?w1 = Some w'" using Cons.prems(1) ac by simp
  have "map_of (m_actorsByNetId ?w1) k = Some p"
    using r Cons.prems(2) by (rule Cons.IH)
  then show ?case by (simp add: delete_conv' split: if_splits)
qed

lemma destroy_pending_idmap:
  "destroy_pending as w = Some w' \<Longrightarrow> a \<in> set as \<Longrightarrow> the_actor w a = Some actor \<Longrightarrow>
   map_of (m_actorsByNetId w') (m_netId actor) = None"
proof (induction as arbitrary: w)
  case Nil
  then show ?case by simp
next
  case (Cons b as)
  from Cons.prems(1) obtain actor_b where ac: "the_actor w b = Some actor_b"
    by (auto split: option.splits)
  let ?w1 = "w\<lparr>w_calls := w_calls w @ [OnDestroy b],
               m_actorsByNetId := AList.delete (m_netId actor_b) (m_actorsByNetId w),
               m_actorList := removeAll b (m_actorList w),
               m_actors := filter (\<lambda>(q, _). q \<noteq> b) (m_actors w)\<rparr>"
  have r: "destroy_pending as ?w1 = Some w'" using Cons.prems(1) ac by simp
  show ?case
  proof (cases "a = b")
    case True
    then have "actor_b = actor" using ac Cons.prems(3) by simp
    then have "map_of (m_actorsByNetId ?w1) (m_netId actor) = None" by simp
    with r show ?thesis by (rule destroy_pending_idmap_mono)
  next
    case False
    then have "a \<in> set as" using Cons.prems(2) by simp
    moreover have "the_actor ?w1 a = Some actor"
      using False Cons.prems(3) by (simp add: the_actor_def map_of_filter_other)
    ultimately show ?thesis using r Cons.IH by blast
  qed
qed

lemma owned_after_remove:
  "fst ` set (filter (\<lambda>(q, _). q \<noteq> a) xs) = fst ` set xs - {a}"
  by (induction xs) auto

lemma destroy_pending_succeeds:
  "distinct as \<Longrightarrow> set as \<subseteq> owned w \<Longrightarrow> \<exists>w'. destroy_pending as w = Some w'"
proof (induction as arbitrary: w)
  case Nil
  then show ?case by simp
next
  case (Cons a as)
  from Cons.prems(2) have "a \<in> fst ` set (m_actors w)" by (simp add: owned_def)
  then obtain actor where ac: "the_actor w a = Some actor"
    unfolding the_actor_def by (metis domD dom_map_of_conv_image_fst)
  let ?w1 = "w\<lparr>w_calls := w_calls w @ [OnDestroy a],
               m_actorsByNetId := AList.delete (m_netId actor) (m_actorsByNetId w),
               m_actorList := removeAll a (m_actorList w),
               m_actors := filter (\<lambda>(q, _). q \<noteq> a) (m_actors w)\<rparr>"
  have "owned ?w1 = owned w - {a}"
    by (simp add: owned_def owned_after_remove del: set_filter)
  then have "set as \<subseteq> owned ?w1"
    using Cons.prems by auto
  moreover have "distinct as" using Cons.prems(1) by simp
  ultimately obtain w' where "destroy_pending as ?w1 = Some w'" using Cons.IH by blast
  then show ?case using ac by simp
qed

lemma serve_owned:
  assumes "set (m_pendingDestroy w) \<subseteq> S"
    and "list_all (\<lambda>(k, p). p \<in> S) (m_actorsByNetId w)"
    and "\<forall>a. RequestDestroy a \<in> set rs \<longrightarrow> a \<in> S"
  shows "set (m_pendingDestroy (serve w rs)) \<subseteq> S"
  using assms
proof (induction w rs rule: serve.induct)
  case (1 w)
  then show ?case by simp
next
  case (2 w a rs)
  have "set (m_pendingDestroy (DestroyActor w (Some a))) \<subseteq> S"
    using 2(2,4) by (auto simp add: DestroyActor_def)
  then show ?case using 2 by simp
next
  case (3 w netId rs)
  have "set (m_pendingDestroy (DestroyActorById w netId)) \<subseteq> S"
  proof (cases "GetActorByNetId w netId")
    case None
    then show ?thesis using 3(2) by (simp add: DestroyActorById_def)
  next
    case (Some p)
    then have "(netId, p) \<in> set (m_actorsByNetId w)"
      by (simp add: GetActorByNetId_def map_of_SomeD)
    then have "p \<in> S" using 3(3) by (auto simp add: list_all_iff)
    then show ?thesis using 3(2) Some by (auto simp add: DestroyActorById_def DestroyActor_def)
  qed
  then show ?case using 3 by simp
qed

lemma tick_actors_owned:
  assumes "set (m_pendingDestroy w) \<subseteq> S"
    and "list_all (\<lambda>(k, p). p \<in> S) (m_actorsByNetId w)"
    and "\<forall>b \<in> set as. \<forall>w1 a. m_actors w1 = m_actors w \<longrightarrow>
           RequestDestroy a \<in> set (hook b dt w1) \<longrightarrow> a \<in> S"
  shows "set (m_pendingDestroy (tick_actors hook dt as w)) \<subseteq> S"
  using assms
proof (induction as arbitrary: w)
  case Nil
  then show ?case by simp
next
  case (Cons b as)
  let ?w1 = "serve (w\<lparr>w_calls := w_calls w @ [TickCall b]\<rparr>) (hook b dt w)"
  have "set (m_pendingDestroy ?w1) \<subseteq> S"
    using Cons.prems by (intro serve_owned) auto
  moreover have "list_all (\<lambda>(k, p). p \<in> S) (m_actorsByNetId ?w1)"
    using Cons.prems(2) by simp
  moreover have "\<forall>b \<in> set as. \<forall>w2 a. m_actors w2 = m_actors ?w1 \<longrightarrow>
           RequestDestroy a \<in> set (hook b dt w2) \<longrightarrow> a \<in> S"
    using Cons.prems(3) by simp
  ultimately show ?case using Cons.IH [of ?w1] by simp
qed

lemma World_Tick_returns:
  assumes "pointers_valid w" "requests_owned hook dt w"
  shows "\<exists>w'. World_Tick hook w dt = Some w'"
proof -
  let ?w1 = "tick_actors hook dt (m_actorList w) w"
  have d: "distinct (m_pendingDestroy ?w1)"
    using assms(1) by (simp add: pointers_valid_def tick_actors_distinct)
  have "set (m_pendingDestroy ?w1) \<subseteq> owned w"
    using assms by (intro tick_actors_owned) (auto simp add: pointers_valid_def requests_owned_def)
  then have "set (m_pendingDestroy ?w1) \<subseteq> owned ?w1" by (simp add: owned_def)
  with d obtain w2 where "destroy_pending (m_pendingDestroy ?w1) ?w1 = Some w2"
    using destroy_pending_succeeds by blast
  then show ?thesis by (simp add: World_Tick_def Let_def)
qed

lemma World_Tick_result:
  assumes "World_Tick hook w dt = Some w'"
  shows "w_calls w' = w_calls w @ map TickCall (m_actorList w) @ map OnDestroy (doomed hook dt w)"
    and "m_actorList w' = filter (\<lambda>a. a \<notin> set (doomed hook dt w)) (m_actorList w)"
    and "m_actors w' = filter (\<lambda>(q, _). q \<notin> set (doomed hook dt w)) (m_actors w)"
    and "m_pendingDestroy w' = []"
    and "a \<in> set (doomed hook dt w) \<Longrightarrow> the_actor w a = Some actor \<Longrightarrow>
         GetActorByNetId w' (m_netId actor) = None"
    and "idmap_consistent w \<Longrightarrow> GetActorByNetId w' k = Some p \<Longrightarrow> p \<notin> set (doomed hook dt w)"
proof -
  let ?w1 = "tick_actors hook dt (m_actorList w) w"
  from assms obtain w2 where dp: "destroy_pending (m_pendingDestroy ?w1) ?w1 = Some w2"
    and w': "w' = w2\<lparr>m_pendingDestroy := []\<rparr>"
    by (auto simp add: World_Tick_def Let_def split: option.splits)
  note res = destroy_pending_result [OF dp]
  show "w_calls w' = w_calls w @ map TickCall (m_actorList w) @ map OnDestroy (doomed hook dt w)"
    by (simp add: w' res tick_actors_calls doomed_def)
  show "m_actorList w' = filter (\<lambda>a. a \<notin> set (doomed hook dt w)) (m_actorList w)"
    by (simp add: w' res doomed_def)
  show "m_actors w' = filter (\<lambda>(q, _). q \<notin> set (doomed hook dt w)) (m_actors w)"
    by (simp add: w' res doomed_def)
  show "m_pendingDestroy w' = []"
    by (simp add: w')
  show "GetActorByNetId w' (m_netId actor) = None"
    if "a \<in> set (doomed hook dt w)" "the_actor w a = Some actor"
  proof -
    have "the_actor ?w1 a = Some actor" using that(2) by (simp add: the_actor_def)
    with dp that(1) have "map_of (m_actorsByNetId w2) (m_netId actor) = None"
      unfolding doomed_def by (intro destroy_pending_idmap)
    then show ?thesis by (simp add: GetActorByNetId_def w')
  qed
  show "p \<notin> set (doomed hook dt w)"
    if "idmap_consistent w" "GetActorByNetId w' k = Some p"
  proof
    assume pd: "p \<in> set (doomed hook dt w)"
    have "map_of (m_actorsByNetId w2) k = Some p"
      using that(2) by (simp add: GetActorByNetId_def w')
    with dp have "map_of (m_actorsByNetId ?w1) k = Some p"
      by (rule destroy_pending_idmap_sub)
    then have "(k, p) \<in> set (m_actorsByNetId w)"
      by (simp add: map_of_SomeD)
    with that(1) obtain actor where ac: "the_actor w p = Some actor" "m_netId actor = k"
      by (auto simp add: idmap_consistent_def list_all_iff)
    then have "the_actor ?w1 p = Some actor" by (simp add: the_actor_def)
    with dp pd have "map_of (m_actorsByNetId w2) (m_netId actor) = None"
      unfolding doomed_def by (intro destroy_pending_idmap)
    then show False
      using \<open>map_of (m_actorsByNetId w2) k = Some p\<close> ac(2) by simp
  qed
qed


lemma request_is_doomed:
  assumes "n < length (m_actorList w)"
    and "RequestDestroy a \<in> set (hook (m_actorList w ! n) dt (tick_actors hook dt (take n (m_actorList w)) w))"
  shows "a \<in> set (doomed hook dt w)"
proof -
  let ?l = "m_actorList w"
  let ?wn = "tick_actors hook dt (take n ?l) w"
  let ?b = "?l ! n"
  let ?w1 = "serve (?wn\<lparr>w_calls := w_calls ?wn @ [TickCall ?b]\<rparr>) (hook ?b dt ?wn)"
  have l: "?l = take n ?l @ ?b # drop (Suc n) ?l"
    using assms(1) by (simp add: id_take_nth_drop)
  have "tick_actors hook dt ?l w = tick_actors hook dt (?b # drop (Suc n) ?l) ?wn"
    by (subst l) (simp only: tick_actors_append)
  also have "\<dots> = tick_actors hook dt (drop (Suc n) ?l) ?w1"
    by simp
  finally have e: "tick_actors hook dt ?l w = tick_actors hook dt (drop (Suc n) ?l) ?w1" .
  have "a \<in> set (m_pendingDestroy ?w1)"
    using assms(2) by (rule serve_requested)
  then have "a \<in> set (m_pendingDestroy (tick_actors hook dt (drop (Suc n) ?l) ?w1))"
    using tick_actors_mono by blast
  then show ?thesis by (simp add: doomed_def e)
qed

text \<open>
  A request by NetId dooms the actor that the map gives for that NetId.
\<close>

lemma serve_requested_by_id:
  "RequestDestroyById i \<in> set rs \<Longrightarrow> GetActorByNetId w i = Some a \<Longrightarrow>
   a \<in> set (m_pendingDestroy (serve w rs))"
proof (induction w rs rule: serve.induct)
  case (1 w)
  then show ?case by simp
next
  case (2 w b rs)
  have "GetActorByNetId (DestroyActor w (Some b)) i = Some a"
    using 2(3) by (simp add: GetActorByNetId_def)
  then show ?case using 2 by simp
next
  case (3 w netId rs)
  show ?case
  proof (cases "i = netId")
    case True
    have "a \<in> set (m_pendingDestroy (DestroyActorById w netId))"
      using 3(3) True by (simp add: DestroyActorById_def DestroyActor_def)
    then show ?thesis using serve_mono by fastforce
  next
    case False
    have "GetActorByNetId (DestroyActorById w netId) i = Some a"
      using 3(3) by (simp add: GetActorByNetId_def)
    then show ?thesis using 3 False by simp
  qed
qed

lemma request_by_id_is_doomed:
  assumes "n < length (m_actorList w)"
    and "RequestDestroyById i \<in> set (hook (m_actorList w ! n) dt (tick_actors hook dt (take n (m_actorList w)) w))"
    and "GetActorByNetId w i = Some a"
  shows "a \<in> set (doomed hook dt w)"
proof -
  let ?l = "m_actorList w"
  let ?wn = "tick_actors hook dt (take n ?l) w"
  let ?b = "?l ! n"
  let ?w1 = "serve (?wn\<lparr>w_calls := w_calls ?wn @ [TickCall ?b]\<rparr>) (hook ?b dt ?wn)"
  have l: "?l = take n ?l @ ?b # drop (Suc n) ?l"
    using assms(1) by (simp add: id_take_nth_drop)
  have "tick_actors hook dt ?l w = tick_actors hook dt (?b # drop (Suc n) ?l) ?wn"
    by (subst l) (simp only: tick_actors_append)
  also have "\<dots> = tick_actors hook dt (drop (Suc n) ?l) ?w1"
    by simp
  finally have e: "tick_actors hook dt ?l w = tick_actors hook dt (drop (Suc n) ?l) ?w1" .
  have "GetActorByNetId (?wn\<lparr>w_calls := w_calls ?wn @ [TickCall ?b]\<rparr>) i = Some a"
    using assms(3) by (simp add: GetActorByNetId_def)
  with assms(2) have "a \<in> set (m_pendingDestroy ?w1)"
    by (rule serve_requested_by_id)
  then have "a \<in> set (m_pendingDestroy (tick_actors hook dt (drop (Suc n) ?l) ?w1))"
    using tick_actors_mono by blast
  then show ?thesis by (simp add: doomed_def e)
qed

text \<open>
  Deferred destruction, in every world. \<open>DestroyActor\<close> appends the actor to the pending list
  unless it is there already, so a second call changes nothing, and \<open>DestroyActorById\<close> is
  \<open>DestroyActor\<close> on the actor the map gives; neither touches the owned set, the iteration
  list or the map. While the tick hooks run (after any number \<open>n\<close> of them) the three
  containers are what they were, and what a hook asks to destroy is pending when the hooks
  are done (so is, by the lemma above, the actor the map gives for a NetId a hook asks to
  destroy), once, if the pending list had no duplicates. \<open>World::Tick\<close> returns when the
  pointers it holds and those the hooks pass are pointers to owned actors. When it returns,
  the calls it made are the tick hooks of all actors of the iteration list, in order, and
  after them the destroy hooks of the pending actors; these actors are gone from the
  iteration list and from the owned set, the map has no entry under their NetIds, and the
  pending list is empty. If each entry of the map led to an actor holding that NetId, no
  entry leads to a destroyed actor.
\<close>

lemma World_Tick_defers_destruction:
  "(m_pendingDestroy (DestroyActor w (Some a)) =
      (if a \<in> set (m_pendingDestroy w) then m_pendingDestroy w else m_pendingDestroy w @ [a])
    \<and> DestroyActor (DestroyActor w (Some a)) (Some a) = DestroyActor w (Some a)
    \<and> (GetActorByNetId w i = Some a \<longrightarrow> DestroyActorById w i = DestroyActor w (Some a))
    \<and> m_actors (DestroyActor w (Some a)) = m_actors w
    \<and> m_actorList (DestroyActor w (Some a)) = m_actorList w
    \<and> m_actorsByNetId (DestroyActor w (Some a)) = m_actorsByNetId w)
   \<and> (n < length (m_actorList w) \<longrightarrow>
        m_actors (tick_actors hook dt (take n (m_actorList w)) w) = m_actors w
        \<and> m_actorList (tick_actors hook dt (take n (m_actorList w)) w) = m_actorList w
        \<and> m_actorsByNetId (tick_actors hook dt (take n (m_actorList w)) w) = m_actorsByNetId w
        \<and> (RequestDestroy a \<in> set (hook (m_actorList w ! n) dt (tick_actors hook dt (take n (m_actorList w)) w)) \<longrightarrow>
             a \<in> set (doomed hook dt w)))
   \<and> (distinct (m_pendingDestroy w) \<longrightarrow> distinct (doomed hook dt w))
   \<and> (pointers_valid w \<and> requests_owned hook dt w \<longrightarrow> World_Tick hook w dt \<noteq> None)
   \<and> (World_Tick hook w dt = Some w' \<longrightarrow>
        w_calls w' = w_calls w @ map TickCall (m_actorList w) @ map OnDestroy (doomed hook dt w)
        \<and> m_actorList w' = filter (\<lambda>a. a \<notin> set (doomed hook dt w)) (m_actorList w)
        \<and> m_actors w' = filter (\<lambda>(q, _). q \<notin> set (doomed hook dt w)) (m_actors w)
        \<and> m_pendingDestroy w' = []
        \<and> (\<forall>a \<in> set (doomed hook dt w).
              a \<notin> set (m_actorList w') \<and> a \<notin> owned w'
              \<and> (\<forall>actor. the_actor w a = Some actor \<longrightarrow> GetActorByNetId w' (m_netId actor) = None))
        \<and> (idmap_consistent w \<longrightarrow>
             (\<forall>k p. GetActorByNetId w' k = Some p \<longrightarrow> p \<notin> set (doomed hook dt w))))"
proof (intro conjI impI)
  show "DestroyActor (DestroyActor w (Some a)) (Some a) = DestroyActor w (Some a)"
    by (simp add: DestroyActor_def)
  show "DestroyActorById w i = DestroyActor w (Some a)" if "GetActorByNetId w i = Some a"
    using that by (simp add: DestroyActorById_def)
  show "distinct (doomed hook dt w)" if "distinct (m_pendingDestroy w)"
    using that by (simp add: doomed_def tick_actors_distinct)
  show "World_Tick hook w dt \<noteq> None" if "pointers_valid w \<and> requests_owned hook dt w"
    using that World_Tick_returns [of w hook dt] by auto
  show "a \<in> set (doomed hook dt w)"
    if "n < length (m_actorList w)"
      "RequestDestroy a \<in> set (hook (m_actorList w ! n) dt (tick_actors hook dt (take n (m_actorList w)) w))"
    using that by (rule request_is_doomed)
next
  assume t: "World_Tick hook w dt = Some w'"
  note r = World_Tick_result [OF t]
  show "w_calls w' = w_calls w @ map TickCall (m_actorList w) @ map OnDestroy (doomed hook dt w)"
    by (rule r(1))
  show "m_actorList w' = filter (\<lambda>a. a \<notin> set (doomed hook dt w)) (m_actorList w)"
    by (rule r(2))
  show "m_actors w' = filter (\<lambda>(q, _). q \<notin> set (doomed hook dt w)) (m_actors w)"
    by (rule r(3))
  show "m_pendingDestroy w' = []"
    by (rule r(4))
  show "\<forall>a \<in> set (doomed hook dt w).
          a \<notin> set (m_actorList w') \<and> a \<notin> owned w'
          \<and> (\<forall>actor. the_actor w a = Some actor \<longrightarrow> GetActorByNetId w' (m_netId actor) = None)"
    using r(5) by (auto simp add: r(2,3) owned_def)
  show "\<forall>k p. GetActorByNetId w' k = Some p \<longrightarrow> p \<notin> set (doomed hook dt w)"
    if "idmap_consistent w"
    using that r(6) by blast
qed (simp_all add: DestroyActor_pending)

lemma world_two_actors_eq:
  "world_two_actors =
     \<lparr>m_actors = [(0, Actor_new\<lparr>m_netId := 1, m_world := True\<rparr>),
                  (1, Actor_new\<lparr>m_netId := 2, m_world := True\<rparr>)],
      m_actorList = [0, 1], m_actorsByNetId = [(1, 0), (2, 1)], m_actorFactories = [],
      m_nextNetId = 3, m_pendingDestroy = [], w_nextAddress = 2,
      w_calls = [OnSpawn 0, OnSpawn 1]\<rparr>"
  by (simp add: world_two_actors_def SpawnActor_def GenerateNetId_def World_new_def Let_def)

lemma sample_tick:
  "World_Tick sample_hook world_two_actors dt =
     Some \<lparr>m_actors = [(1, Actor_new\<lparr>m_netId := 2, m_world := True\<rparr>)],
           m_actorList = [1], m_actorsByNetId = [(2, 1)], m_actorFactories = [],
           m_nextNetId = 3, m_pendingDestroy = [], w_nextAddress = 2,
           w_calls = [OnSpawn 0, OnSpawn 1, TickCall 0, TickCall 1, OnDestroy 0]\<rparr>"
  by (simp add: world_two_actors_eq World_Tick_def Let_def sample_hook_def DestroyActor_def
      DestroyActorById_def GetActorByNetId_def the_actor_def Actor_new_def)

lemma sample_doomed: "doomed sample_hook dt world_two_actors = [0]"
  by (simp add: doomed_def world_two_actors_eq sample_hook_def DestroyActor_def
      DestroyActorById_def GetActorByNetId_def)

lemma World_Tick_defers_destruction_sample:
  "m_pendingDestroy (DestroyActor world_two_actors (Some 0)) = [0]
   \<and> DestroyActor (DestroyActor world_two_actors (Some 0)) (Some 0) = DestroyActor world_two_actors (Some 0)
   \<and> DestroyActorById world_two_actors 1 = DestroyActor world_two_actors (Some 0)
   \<and> m_actorList (tick_actors sample_hook (1 / 30) (take 1 (m_actorList world_two_actors)) world_two_actors) = [0, 1]
   \<and> doomed sample_hook (1 / 30) world_two_actors = [0]
   \<and> (\<exists>w'. World_Tick sample_hook world_two_actors (1 / 30) = Some w'
         \<and> w_calls w' = [OnSpawn 0, OnSpawn 1, TickCall 0, TickCall 1, OnDestroy 0]
         \<and> m_actorList w' = [1]
         \<and> map fst (m_actors w') = [1]
         \<and> m_pendingDestroy w' = []
         \<and> GetActorByNetId w' 1 = None
         \<and> GetActorByNetId w' 2 = Some 1)"
proof -
  let ?w = world_two_actors
  let ?w' = "\<lparr>m_actors = [(1, Actor_new\<lparr>m_netId := 2, m_world := True\<rparr>)],
           m_actorList = [1], m_actorsByNetId = [(2, 1)], m_actorFactories = [],
           m_nextNetId = 3, m_pendingDestroy = [], w_nextAddress = 2,
           w_calls = [OnSpawn 0, OnSpawn 1, TickCall 0, TickCall 1, OnDestroy 0]\<rparr>"
  have h1: "GetActorByNetId ?w 1 = Some 0"
    by (simp add: world_two_actors_eq GetActorByNetId_def)
  have h2: "(1 :: nat) < length (m_actorList ?w)"
    by (simp add: world_two_actors_eq)
  have h3: "distinct (m_pendingDestroy ?w)"
    by (simp add: world_two_actors_eq)
  have h4: "pointers_valid ?w \<and> requests_owned sample_hook (1 / 30) ?w"
    by (simp add: world_two_actors_eq pointers_valid_def requests_owned_def owned_def
        sample_hook_def)
  have h5: "World_Tick sample_hook ?w (1 / 30) = Some ?w'"
    by (rule sample_tick)
  have h6: "idmap_consistent ?w"
    by (simp add: world_two_actors_eq idmap_consistent_def the_actor_def)
  have h7: "the_actor ?w 0 = Some (Actor_new\<lparr>m_netId := 1, m_world := True\<rparr>)"
    by (simp add: world_two_actors_eq the_actor_def)
  note T = World_Tick_defers_destruction [of ?w 0 1 1 sample_hook "1 / 30" ?w']
  have a: "m_pendingDestroy (DestroyActor ?w (Some 0)) =
             (if 0 \<in> set (m_pendingDestroy ?w) then m_pendingDestroy ?w else m_pendingDestroy ?w @ [0])"
    and b: "DestroyActor (DestroyActor ?w (Some 0)) (Some 0) = DestroyActor ?w (Some 0)"
    and c: "DestroyActorById ?w 1 = DestroyActor ?w (Some 0)"
    and d: "m_actorList (tick_actors sample_hook (1 / 30) (take 1 (m_actorList ?w)) ?w) = m_actorList ?w"
    and e: "World_Tick sample_hook ?w (1 / 30) \<noteq> None"
    and f: "w_calls ?w' = w_calls ?w @ map TickCall (m_actorList ?w) @ map OnDestroy (doomed sample_hook (1 / 30) ?w)"
    and g: "\<forall>a \<in> set (doomed sample_hook (1 / 30) ?w).
              a \<notin> set (m_actorList ?w') \<and> a \<notin> owned ?w'
              \<and> (\<forall>actor. the_actor ?w a = Some actor \<longrightarrow> GetActorByNetId ?w' (m_netId actor) = None)"
    using T h1 h2 h4 h5 by blast+
  have g1: "GetActorByNetId ?w' 1 = None"
    using g h7 by (simp add: sample_doomed)
  have a1: "m_pendingDestroy (DestroyActor ?w (Some 0)) = [0]"
    using a by (simp add: world_two_actors_eq)
  have wl: "m_actorList ?w = [0, 1]"
    by (simp add: world_two_actors_eq)
  have d1: "m_actorList (tick_actors sample_hook (1 / 30) (take 1 (m_actorList ?w)) ?w) = [0, 1]"
    using d by (simp only: wl)
  have f1: "w_calls ?w' = [OnSpawn 0, OnSpawn 1, TickCall 0, TickCall 1, OnDestroy 0]"
    by simp
  show ?thesis
  proof (intro conjI exI)
    show "World_Tick sample_hook ?w (1 / 30) = Some ?w'" by (rule h5)
    show "GetActorByNetId ?w' 1 = None" by (rule g1)
    show "m_actorList (tick_actors sample_hook (1 / 30) (take 1 (m_actorList ?w)) ?w) = [0, 1]"
      by (rule d1)
  qed (simp_all add: a1 b c d1 sample_doomed GetActorByNetId_def)
qed

text \<open>
  What does hold of NetIds: \<open>SpawnActor\<close> keeps the NetIds of the live actors distinct as long
  as the counter has not wrapped, and after the destroy pass no live actor holds the NetId
  of a destroyed one if the NetIds were distinct before.
\<close>

lemma live_netIds_SpawnActor:
  "live_netIds (snd (SpawnActor w (Some a))) = live_netIds w @ [m_nextNetId w]"
  by (simp add: SpawnActor_def GenerateNetId_def Let_def live_netIds_def)

lemma SpawnActor_netIds_unique:
  assumes "distinct (live_netIds w)" "\<forall>i \<in> set (live_netIds w). i < m_nextNetId w"
    and "m_nextNetId w + 1 \<noteq> 0"
  shows "distinct (live_netIds (snd (SpawnActor w (Some a))))"
    and "\<forall>i \<in> set (live_netIds (snd (SpawnActor w (Some a)))). i < m_nextNetId (snd (SpawnActor w (Some a)))"
proof -
  have n: "m_nextNetId (snd (SpawnActor w (Some a))) = m_nextNetId w + 1"
    by (simp add: SpawnActor_def GenerateNetId_def Let_def)
  have lt: "m_nextNetId w < m_nextNetId w + 1"
    using assms(3) unatSuc [of "m_nextNetId w"] by (simp add: word_less_nat_alt add.commute)
  show "distinct (live_netIds (snd (SpawnActor w (Some a))))"
    using assms(1,2) by (auto simp add: live_netIds_SpawnActor)
  show "\<forall>i \<in> set (live_netIds (snd (SpawnActor w (Some a)))). i < m_nextNetId (snd (SpawnActor w (Some a)))"
    using assms(2) lt by (auto simp add: live_netIds_SpawnActor n)
qed

lemma destroy_pass_frees_netIds:
  assumes "distinct (live_netIds w)" "World_Tick hook w dt = Some w'"
    and "a \<in> set (doomed hook dt w)" "the_actor w a = Some actor"
  shows "m_netId actor \<notin> set (live_netIds w')"
proof
  assume "m_netId actor \<in> set (live_netIds w')"
  then obtain q b where qb: "(q, b) \<in> set (m_actors w')" "m_netId b = m_netId actor"
    by (auto simp add: live_netIds_def)
  have f: "m_actors w' = filter (\<lambda>(q, _). q \<notin> set (doomed hook dt w)) (m_actors w)"
    using assms(2) by (rule World_Tick_result(3))
  from qb(1) have q: "(q, b) \<in> set (m_actors w)" "q \<notin> set (doomed hook dt w)"
    by (auto simp add: f)
  have a: "(a, actor) \<in> set (m_actors w)"
    using assms(4) by (simp add: the_actor_def map_of_SomeD)
  have "inj_on (\<lambda>(q, a). m_netId a) (set (m_actors w))"
    using assms(1) by (simp add: live_netIds_def distinct_map)
  then have "(q, b) = (a, actor)"
    using q(1) a qb(2) by (auto simp add: inj_on_def)
  then show False using q(2) assms(3) by simp
qed

section \<open>Replication at concrete inputs\<close>

text \<open>
  Right after registration the change test compares the bytes of the value with zeros.
\<close>

lemma HasChanged_after_registration:
  assumes "load_bytes mem ptr sz = Some bs" "0 < sz"
  shows "HasChanged mem (ReplicatedProperty_new n t (Some ptr) sz) = Some (bs \<noteq> replicate sz 0)"
  using assms by (simp add: HasChanged_def ReplicatedProperty_new_def)

text \<open>
  Claim C7, at an input where the code falls short of it. A health of 0 is registered: the
  cache has the size of the property and \<open>dirty\<close> is set, but the cache is four zero bytes,
  the same as the value, and \<open>HasChanged\<close>, which does not look at \<open>dirty\<close>, returns false.
  With the position at zero as well, \<open>SendActorUpdate\<close> builds no packet.
\<close>

theorem zero_property_not_changed_after_registration:
  "map_of (m_replicatedProperties (player_actor 0)) ''Health'' = Some health_property
   \<and> lastValue health_property = [0, 0, 0, 0]
   \<and> dirty health_property
   \<and> HasChanged (m_fields (player_actor 0)) health_property = Some False
   \<and> SendActorUpdate ((player_actor 0)\<lparr>m_netId := 1\<rparr>) = Some ((player_actor 0)\<lparr>m_netId := 1\<rparr>, None)"
  by code_simp

text \<open>
  Claim C1, at an input where the code falls short of it. The sender, whose actor has NetId
  1 and a health of 57, builds the packet with \<open>SendActorUpdate\<close>; the payload is the 23
  bytes shown. The receiving actor has NetId 1 and a health of
  100. After \<open>HandleActorUpdate\<close> the health is 0, not 57, and the property record has lost its
  name and its kind: the cursor was moved back to the kind byte, and \<open>Deserialize\<close> read a
  name from there.
\<close>

theorem rewound_decode_corrupts_property:
  "map_option snd (SendActorUpdate ((player_actor 57)\<lparr>m_netId := 1\<rparr>)) = Some (Some health_update_packet)
   \<and> written health_update_payload =
       [1, 0, 0, 0, 1, 0, 0, 0, 6, 0, 0, 0, 72, 101, 97, 108, 116, 104, 5, 57, 0, 0, 0]
   \<and> GetActorByNetId client_world_with_player 1 = Some 0
   \<and> field_object client_world_with_player 0 0 = Some (Bytes [100, 0, 0, 0])
   \<and> map_option (\<lambda>r. field_object (fst r) 0 0)
        (HandleActorUpdate client_world_with_player health_update_packet) = Some (Some (Bytes [0, 0, 0, 0]))
   \<and> map_option (\<lambda>r. map_option prop_name (property_entry (fst r) 0 ''Health''))
        (HandleActorUpdate client_world_with_player health_update_packet) = Some (Some [])
   \<and> map_option (\<lambda>r. map_option prop_type (property_entry (fst r) 0 ''Health''))
        (HandleActorUpdate client_world_with_player health_update_packet) = Some (Some Bool)"
  by code_simp

text \<open>
  Claim C5, at inputs where the code falls short of it. A client receives \<open>ActorSpawn\<close> for
  NetId 2 and then for NetId 3. In the second handling, when \<open>SpawnActorByType\<close> returns (the
  spawn hook has run) both actors hold NetId 2; afterwards the map leads from NetId 2 to the
  actor that holds 3. A client that receives the same \<open>ActorSpawn\<close> for NetId 7 twice has two
  actors holding 7, and when one is destroyed a live actor still holds 7 after the destroy
  pass.
\<close>

theorem wire_netId_duplicates:
  "live_netIds (fst (HandleActorSpawn client_world (spawn_packet 2))) = [2]
   \<and> live_netIds (snd (SpawnActorByType (fst (HandleActorSpawn client_world (spawn_packet 2))) ''PlayerActor'')) = [2, 2]
   \<and> live_netIds (fst (HandleActorSpawn (fst (HandleActorSpawn client_world (spawn_packet 2))) (spawn_packet 3))) = [2, 3]
   \<and> GetActorByNetId (fst (HandleActorSpawn (fst (HandleActorSpawn client_world (spawn_packet 2))) (spawn_packet 3))) 2 = Some 1
   \<and> live_netIds (fst (HandleActorSpawn (fst (HandleActorSpawn client_world (spawn_packet 7))) (spawn_packet 7))) = [7, 7]
   \<and> m_actorList (fst (HandleActorSpawn (fst (HandleActorSpawn client_world (spawn_packet 7))) (spawn_packet 7))) = [0, 1]
   \<and> map_option live_netIds
        (World_Tick no_requests
           (DestroyActor
              (fst (HandleActorSpawn (fst (HandleActorSpawn client_world (spawn_packet 7))) (spawn_packet 7)))
              (Some 0))
           0) = Some [7]"
  by code_simp

text \<open>
  Claim C6, at an input where the code falls short of it. A client handles an \<open>ActorSpawn\<close>
  for NetId 7: the actor holds 7, but the map knows it under 1, the NetId the client's own
  counter gave it. An \<open>ActorDestroy\<close> for NetId 1 dooms it. \<open>World::Tick\<close> calls its destroy hook,
  erases the map entry under 7, which does not exist, and frees the actor: the world owns no
  actor, and the map still leads from 1 to the freed actor. \<open>ProcessRPC\<close>, for a packet of
  kind \<open>RPCServer\<close> that names actor 1 and the handler \<open>Fire\<close>, declared \<open>Server\<close>, then calls
  the handler (number 0) with the pointer to that actor (address 0).
\<close>

theorem rpc_handler_called_on_destroyed_actor:
  "live_netIds client_world_spawned_7 = [7]
   \<and> m_actorsByNetId client_world_spawned_7 = [(1, 0)]
   \<and> m_pendingDestroy (fst (HandleActorDestroy client_world_spawned_7 (destroy_packet 1))) = [0]
   \<and> map_option w_calls
        (World_Tick no_requests (fst (HandleActorDestroy client_world_spawned_7 (destroy_packet 1))) 0) =
       Some [OnSpawn 0, TickCall 0, OnDestroy 0]
   \<and> map_option m_actors
        (World_Tick no_requests (fst (HandleActorDestroy client_world_spawned_7 (destroy_packet 1))) 0) =
       Some []
   \<and> map_option (\<lambda>w. the_actor w 0)
        (World_Tick no_requests (fst (HandleActorDestroy client_world_spawned_7 (destroy_packet 1))) 0) =
       Some None
   \<and> map_option (\<lambda>w. GetActorByNetId w 1)
        (World_Tick no_requests (fst (HandleActorDestroy client_world_spawned_7 (destroy_packet 1))) 0) =
       Some (Some 0)
   \<and> map_option (\<lambda>w. fst (ProcessRPC w sample_registry (rpc_packet RPCServer 1 ''Fire'')))
        (World_Tick no_requests (fst (HandleActorDestroy client_world_spawned_7 (destroy_packet 1))) 0) =
       Some (Some (0, 0, BitStream_of []))"
  by code_simp

text \<open>
  Claim C9, at inputs where the code falls short of it. In the client world that has handled
  an \<open>ActorSpawn\<close> for NetId 7, the actor asks for its own destruction in its tick hook. The
  destruction is deferred as the claim says: the tick hook runs, then the destroy hook, and
  the actor leaves the iteration list and the owned set. But the map still holds the entry
  that leads to it: \<open>World::Tick\<close> erased under 7, the NetId the actor holds, and the entry is
  under 1. If the actor asks by the NetId it holds instead, \<open>DestroyActorById\<close> finds no
  actor under 7: nothing is appended to the pending list and the actor is not destroyed.
  In the client world that has handled \<open>ActorSpawn\<close> for NetId 2 and then for NetId 1, the
  first actor is destroyed: the entry erased is that of the second actor, which lives on,
  and the entry left leads to the destroyed one.
\<close>

theorem destroyed_actor_stays_in_id_map:
  "live_netIds client_world_spawned_7 = [7]
   \<and> m_actorsByNetId client_world_spawned_7 = [(1, 0)]
   \<and> doomed destroy_self 0 client_world_spawned_7 = [0]
   \<and> map_option w_calls (World_Tick destroy_self client_world_spawned_7 0) =
       Some [OnSpawn 0, TickCall 0, OnDestroy 0]
   \<and> map_option m_actors (World_Tick destroy_self client_world_spawned_7 0) = Some []
   \<and> map_option m_actorList (World_Tick destroy_self client_world_spawned_7 0) = Some []
   \<and> map_option m_actorsByNetId (World_Tick destroy_self client_world_spawned_7 0) = Some [(1, 0)]
   \<and> doomed destroy_self_by_id 0 client_world_spawned_7 = []
   \<and> map_option live_netIds (World_Tick destroy_self_by_id client_world_spawned_7 0) = Some [7]
   \<and> live_netIds client_world_spawned_2_1 = [2, 1]
   \<and> m_actorsByNetId client_world_spawned_2_1 = [(1, 0), (2, 1)]
   \<and> map_option (map fst \<circ> m_actors)
        (World_Tick no_requests (DestroyActor client_world_spawned_2_1 (Some 0)) 0) = Some [1]
   \<and> map_option m_actorsByNetId
        (World_Tick no_requests (DestroyActor client_world_spawned_2_1 (Some 0)) 0) = Some [(1, 0)]"
  by code_simp
end
